theory Spec2Isabelle
  imports Main
begin

section \<open>The WebDAV handler layer: data model\<close>

text \<open>
  The handler file of package \<open>dav\<close> is embedded function by function. Go strings are
  byte sequences, hence \<open>string\<close>; Go \<open>int\<close> statuses and depths are \<open>int\<close>; a Go
  \<open>error\<close> return is an \<open>error option\<close> (\<open>None\<close> is \<open>nil\<close>), and a pair
  \<open>(value, err)\<close> of which only one side is ever read is a sum with \<open>Inl\<close> the error.

  Everything the handlers reach through interfaces (the lock store, the file system, the
  clock) is state outside the handler. It is one opaque type \<open>'w\<close>, threaded through
  every call in program order, so nothing is assumed about what an implementation stores
  or shares.
\<close>

type_synonym time = int
type_synonym duration = int
type_synonym File = nat

text \<open>
  The sentinel error values: the \<open>var\<close> block at the end of the handler file, the four
  exported errors of the lock store that the handlers compare against, and two
  constructors for every other error value, split by what \<open>os.IsNotExist\<close> answers.
\<close>

datatype error =
    ErrConfirmationFailed
  | ErrForbidden
  | ErrLocked
  | ErrNoSuchLock
  | errDestinationEqualsSource
  | errDirectoryNotEmpty
  | errInvalidDepth
  | errInvalidDestination
  | errInvalidIfHeader
  | errInvalidLockInfo
  | errInvalidLockToken
  | errInvalidPropfind
  | errInvalidProppatch
  | errInvalidResponse
  | errInvalidTimeout
  | errNoFileSystem
  | errNoLockSystem
  | errNotADirectory
  | errPrefixMismatch
  | errRecursionTooDeep
  | errUnsupportedLockInfo
  | errUnsupportedMethod
  | NotExistError string
  | OtherError string

fun os_IsNotExist :: "error \<Rightarrow> bool" where
  "os_IsNotExist (NotExistError _) = True"
| "os_IsNotExist _ = False"

abbreviation StatusCreated :: int where "StatusCreated \<equiv> 201"
abbreviation StatusNoContent :: int where "StatusNoContent \<equiv> 204"
abbreviation StatusBadRequest :: int where "StatusBadRequest \<equiv> 400"
abbreviation StatusForbidden :: int where "StatusForbidden \<equiv> 403"
abbreviation StatusNotFound :: int where "StatusNotFound \<equiv> 404"
abbreviation StatusMethodNotAllowed :: int where "StatusMethodNotAllowed \<equiv> 405"
abbreviation StatusConflict :: int where "StatusConflict \<equiv> 409"
abbreviation StatusPreconditionFailed :: int where "StatusPreconditionFailed \<equiv> 412"
abbreviation StatusUnsupportedMediaType :: int where "StatusUnsupportedMediaType \<equiv> 415"
abbreviation StatusLocked :: int where "StatusLocked \<equiv> 423"
abbreviation StatusInternalServerError :: int where "StatusInternalServerError \<equiv> 500"
abbreviation StatusBadGateway :: int where "StatusBadGateway \<equiv> 502"
abbreviation StatusOK :: int where "StatusOK \<equiv> 200"

definition infiniteDepth :: int where
  "infiniteDepth = - 1"

definition invalidDepth :: int where
  "invalidDepth = - 2"

text \<open>
  Modelled from the spec: the constant \<open>infiniteTimeout\<close> of the lock store, declared
  outside the handler file. The spec only says that a duration may be infinite; the
  handlers pass the constant through and never inspect it.
\<close>

definition infiniteTimeout :: duration where
  "infiniteTimeout = - 1"

text \<open>
  Modelled from the spec: the struct \<open>LockDetails\<close> (section 3 of the spec: Root,
  Duration, OwnerXML, ZeroDepth), declared with the lock store.
\<close>

record LockDetails =
  Root :: string
  Duration :: duration
  OwnerXML :: string
  ZeroDepth :: bool

text \<open>
  Modelled from the spec: the parsed If header (section 3 of the spec), declared with the
  tokenizer. A header is a list of lists; a list has a resource tag (empty when absent)
  and conditions; the handlers read only a condition's token.
\<close>

record Condition =
  Not_flag :: bool
  Token :: string
  ETag :: string

record ifList =
  resourceTag :: string
  conditions :: "Condition list"

record ifHeader =
  ih_lists :: "ifList list"

text \<open>
  Modelled from the spec: the body of a LOCK request as \<open>ReadLockInfo\<close> returns it. The
  handler compares it with the zero value and reads \<open>Owner.InnerXML\<close>; the three scope
  and type fields are pointers in Go, here whether they are set.
\<close>

record LockInfo =
  XMLName :: string
  Exclusive :: bool
  Shared :: bool
  Write :: bool
  Owner_InnerXML :: string

definition zeroLockInfo :: LockInfo where
  "zeroLockInfo = \<lparr>XMLName = [], Exclusive = False, Shared = False, Write = False,
     Owner_InnerXML = []\<rparr>"

text \<open>What the handlers read of an \<open>os.FileInfo\<close>.\<close>

record FileInfo =
  IsDir :: bool
  ModTime :: time
  Size :: int

text \<open>What the handlers read of a parsed URL.\<close>

record URL =
  URL_Host :: string
  URL_Path :: string

text \<open>
  The request. \<open>Header r k\<close> is \<open>r.Header.Get(k)\<close>: the value of the header, the empty
  string when the request has none.
\<close>

record Request =
  Method :: string
  Path :: string
  Host :: string
  Header :: "string \<Rightarrow> string"
  ContentLength :: int
  Body :: string

text \<open>
  The \<open>LockSystem\<close> interface. A release function returned by \<open>Confirm\<close> is a
  closure over the store.
\<close>

record 'w LockSystem =
  Confirm :: "time \<Rightarrow> string \<Rightarrow> string \<Rightarrow> Condition list \<Rightarrow> 'w \<Rightarrow> (error + ('w \<Rightarrow> 'w)) \<times> 'w"
  Create :: "time \<Rightarrow> LockDetails \<Rightarrow> 'w \<Rightarrow> (error + string) \<times> 'w"
  Refresh :: "time \<Rightarrow> string \<Rightarrow> duration \<Rightarrow> 'w \<Rightarrow> (error + LockDetails) \<times> 'w"
  Unlock :: "time \<Rightarrow> string \<Rightarrow> 'w \<Rightarrow> error option \<times> 'w"

text \<open>
  The part of the \<open>FileSystem\<close> interface, and of the \<open>File\<close> it opens, that the
  embedded handlers call. The two flag combinations the handlers open files with are
  named rather than numbered.
\<close>

datatype open_flag = O_RDONLY | O_RDWR_CREATE_TRUNC

record 'w FileSystem =
  Mkdir :: "string \<Rightarrow> int \<Rightarrow> 'w \<Rightarrow> error option \<times> 'w"
  OpenFile :: "string \<Rightarrow> open_flag \<Rightarrow> int \<Rightarrow> 'w \<Rightarrow> (error + File) \<times> 'w"
  Stat :: "string \<Rightarrow> 'w \<Rightarrow> (error + FileInfo) \<times> 'w"
  File_Stat :: "File \<Rightarrow> 'w \<Rightarrow> (error + FileInfo) \<times> 'w"
  File_Close :: "File \<Rightarrow> 'w \<Rightarrow> error option \<times> 'w"

text \<open>
  The functions the handlers call that are defined in other files of the package or in
  the standard library: they are parameters of the embedding.
\<close>

record 'w Deps =
  time_Now :: "'w \<Rightarrow> time \<times> 'w"
  url_Parse :: "string \<Rightarrow> error + URL"
  parseIfHeader :: "string \<Rightarrow> ifHeader option"
  parseTimeout :: "string \<Rightarrow> error + duration"
  ReadLockInfo :: "string \<Rightarrow> LockInfo \<times> int \<times> error option"
  findETag :: "string \<Rightarrow> FileInfo \<Rightarrow> 'w \<Rightarrow> (error + string) \<times> 'w"
  copyFiles :: "string \<Rightarrow> string \<Rightarrow> bool \<Rightarrow> int \<Rightarrow> int \<Rightarrow> 'w \<Rightarrow> (int \<times> error option) \<times> 'w"
  moveFiles :: "string \<Rightarrow> string \<Rightarrow> bool \<Rightarrow> 'w \<Rightarrow> (int \<times> error option) \<times> 'w"
  ServeContent :: "string \<Rightarrow> time \<Rightarrow> File \<Rightarrow> 'w \<Rightarrow> 'w"

record 'w Handler =
  Prefix :: string
  FileSystem :: "'w FileSystem"
  LockSystem :: "'w LockSystem"

text \<open>
  The response writer is an output channel: it is the list of the operations the handler
  performed on it, oldest first.
\<close>

datatype w_op =
    Header_Set string string
  | WriteHeader int
  | WriteLockInfo string LockDetails
  | Serve string time File

type_synonym ResponseWriter = "w_op list"

section \<open>Path normalizer and header parsers\<close>

definition HasPrefix :: "string \<Rightarrow> string \<Rightarrow> bool" where
  "HasPrefix s p = (length s \<ge> length p \<and> take (length p) s = p)"

definition TrimPrefix :: "string \<Rightarrow> string \<Rightarrow> string" where
  "TrimPrefix s p = (if HasPrefix s p then drop (length p) s else s)"

definition stripPrefix :: "'w Handler \<Rightarrow> string \<Rightarrow> string \<times> int \<times> error option" where
  "stripPrefix h p =
     (if Prefix h = [] then (p, StatusOK, None)
      else (let r = TrimPrefix p (Prefix h) in
        if length r < length p then (r, StatusOK, None)
        else (p, StatusNotFound, Some errPrefixMismatch)))"

definition parseDepth :: "string \<Rightarrow> int" where
  "parseDepth s =
     (if s = ''0'' then 0
      else if s = ''1'' then 1
      else if s = ''infinity'' then infiniteDepth
      else invalidDepth)"

section \<open>Lock coordination\<close>

definition lock :: "'w Handler \<Rightarrow> time \<Rightarrow> string \<Rightarrow> 'w \<Rightarrow> (string \<times> int \<times> error option) \<times> 'w" where
  "lock h now root w =
     (case Create (LockSystem h) now
             \<lparr>Root = root, Duration = infiniteTimeout, OwnerXML = [], ZeroDepth = True\<rparr> w of
        (Inl err, w') \<Rightarrow>
          if err = ErrLocked then (([], StatusLocked, Some err), w')
          else (([], StatusInternalServerError, Some err), w')
      | (Inr token, w') \<Rightarrow> ((token, 0, None), w'))"

text \<open>
  The loop of \<open>confirmLocks\<close> over the lists of the If header. \<open>effectivePath\<close> is the
  part of the loop body before the call of \<open>Confirm\<close>: it ends in \<open>continue\<close>, in a
  \<open>return\<close> of the failed prefix strip, or with the path \<open>lsrc\<close> to confirm.
\<close>

datatype lsrc_outcome = Continue | Return int error | Lsrc string

definition effectivePath :: "'w Handler \<Rightarrow> 'w Deps \<Rightarrow> Request \<Rightarrow> string \<Rightarrow> ifList \<Rightarrow> lsrc_outcome" where
  "effectivePath h d r src l =
     (let lsrc = resourceTag l in
      if lsrc = [] then Lsrc src
      else (case url_Parse d lsrc of
              Inl err \<Rightarrow> Continue
            | Inr u \<Rightarrow>
                if URL_Host u \<noteq> Host r then Continue
                else (case stripPrefix h (URL_Path u) of
                        (lsrc', status, Some err) \<Rightarrow> Return status err
                      | (lsrc', status, None) \<Rightarrow> Lsrc lsrc')))"

type_synonym 'w confirm_result = "(('w \<Rightarrow> 'w) option \<times> int \<times> error option) \<times> 'w"

fun confirmLists ::
  "'w Handler \<Rightarrow> 'w Deps \<Rightarrow> Request \<Rightarrow> string \<Rightarrow> string \<Rightarrow> ifList list \<Rightarrow> 'w \<Rightarrow> 'w confirm_result" where
  "confirmLists h d r src dst [] w = ((None, StatusPreconditionFailed, Some ErrLocked), w)"
| "confirmLists h d r src dst (l # ls) w =
     (case effectivePath h d r src l of
        Continue \<Rightarrow> confirmLists h d r src dst ls w
      | Return status err \<Rightarrow> ((None, status, Some err), w)
      | Lsrc lsrc \<Rightarrow>
          (case time_Now d w of (now, w1) \<Rightarrow>
            (case Confirm (LockSystem h) now lsrc dst (conditions l) w1 of
               (Inl err, w2) \<Rightarrow>
                 if err = ErrConfirmationFailed then confirmLists h d r src dst ls w2
                 else ((None, StatusInternalServerError, Some err), w2)
             | (Inr release, w2) \<Rightarrow> ((Some release, 0, None), w2))))"

definition confirmLocks ::
  "'w Handler \<Rightarrow> 'w Deps \<Rightarrow> Request \<Rightarrow> string \<Rightarrow> string \<Rightarrow> 'w \<Rightarrow> 'w confirm_result" where
  "confirmLocks h d r src dst w =
     (let hdr = Header r ''If'' in
      if hdr = [] then
        (case time_Now d w of (now, w0) \<Rightarrow>
          (case (if src \<noteq> [] then lock h now src w0 else (([], 0, None), w0)) of
             ((srcToken, status, Some err), w1) \<Rightarrow> ((None, status, Some err), w1)
           | ((srcToken, status, None), w1) \<Rightarrow>
               (case (if dst \<noteq> [] then lock h now dst w1 else (([], status, None), w1)) of
                  ((dstToken, status', Some err), w2) \<Rightarrow>
                    ((None, status', Some err),
                     (if srcToken \<noteq> [] then snd (Unlock (LockSystem h) now srcToken w2) else w2))
                | ((dstToken, status', None), w2) \<Rightarrow>
                    ((Some (\<lambda>v.
                        (let v1 = (if dstToken \<noteq> [] then snd (Unlock (LockSystem h) now dstToken v) else v)
                         in (if srcToken \<noteq> [] then snd (Unlock (LockSystem h) now srcToken v1) else v1))),
                      0, None), w2))))
      else (case parseIfHeader d hdr of
              None \<Rightarrow> ((None, StatusBadRequest, Some errInvalidIfHeader), w)
            | Some ih \<Rightarrow> confirmLists h d r src dst (ih_lists ih) w))"

text \<open>
  \<open>defer release()\<close>: the release function runs when the handler returns. A handler
  reaches the \<open>defer\<close> only after \<open>confirmLocks\<close> returned a nil error, and then the
  release function is not nil (lemma \<open>confirmLocks_release\<close> below), so the \<open>None\<close>
  case is never taken.
\<close>

definition deferred :: "('w \<Rightarrow> 'w) option \<Rightarrow> 'w \<Rightarrow> 'w" where
  "deferred release w = (case release of Some f \<Rightarrow> f w | None \<Rightarrow> w)"

section \<open>Method handlers\<close>

text \<open>
  A handler returns \<open>(status, err)\<close> and the state of the world it leaves; the two
  handlers that write to the response writer return it as well. \<open>Path r\<close> is
  \<open>r.URL.Path\<close>.
\<close>

definition handleGetHeadPost ::
  "'w Handler \<Rightarrow> 'w Deps \<Rightarrow> Request \<Rightarrow> ResponseWriter \<Rightarrow> 'w \<Rightarrow> (int \<times> error option) \<times> ResponseWriter \<times> 'w" where
  "handleGetHeadPost h d r resp w =
     (case stripPrefix h (Path r) of
        (reqPath, status, Some err) \<Rightarrow> ((status, Some err), resp, w)
      | (reqPath, status, None) \<Rightarrow>
          (case OpenFile (FileSystem h) reqPath O_RDONLY 0 w of
             (Inl err, w1) \<Rightarrow> ((StatusNotFound, Some err), resp, w1)
           | (Inr f, w1) \<Rightarrow>
               (case
                  (case File_Stat (FileSystem h) f w1 of
                     (Inl err, w2) \<Rightarrow> ((StatusNotFound, Some err), resp, w2)
                   | (Inr fi, w2) \<Rightarrow>
                       if IsDir fi then ((StatusMethodNotAllowed, None), resp, w2)
                       else (case findETag d reqPath fi w2 of
                               (Inl err, w3) \<Rightarrow> ((StatusInternalServerError, Some err), resp, w3)
                             | (Inr etag, w3) \<Rightarrow>
                                 ((0, None),
                                  resp @ [Header_Set ''ETag'' etag, Serve reqPath (ModTime fi) f],
                                  ServeContent d reqPath (ModTime fi) f w3)))
                of (res, resp', w') \<Rightarrow> (res, resp', snd (File_Close (FileSystem h) f w')))))"

text \<open>The permission bits \<open>0777\<close> and \<open>0666\<close> are octal in the source.\<close>

definition handleMkcol ::
  "'w Handler \<Rightarrow> 'w Deps \<Rightarrow> Request \<Rightarrow> 'w \<Rightarrow> (int \<times> error option) \<times> 'w" where
  "handleMkcol h d r w =
     (case stripPrefix h (Path r) of
        (reqPath, status, Some err) \<Rightarrow> ((status, Some err), w)
      | (reqPath, status, None) \<Rightarrow>
          (case confirmLocks h d r reqPath [] w of
             ((release, status, Some err), w1) \<Rightarrow> ((status, Some err), w1)
           | ((release, status, None), w1) \<Rightarrow>
               (case
                  (if ContentLength r > 0 then ((StatusUnsupportedMediaType, None), w1)
                   else (case Mkdir (FileSystem h) reqPath 511 w1 of
                           (Some err, w2) \<Rightarrow>
                             if os_IsNotExist err then ((StatusConflict, Some err), w2)
                             else ((StatusMethodNotAllowed, Some err), w2)
                         | (None, w2) \<Rightarrow> ((StatusCreated, None), w2)))
                of (res, w') \<Rightarrow> (res, deferred release w'))))"

definition handleCopyMove ::
  "'w Handler \<Rightarrow> 'w Deps \<Rightarrow> Request \<Rightarrow> 'w \<Rightarrow> (int \<times> error option) \<times> 'w" where
  "handleCopyMove h d r w =
     (let hdr = Header r ''Destination'' in
      if hdr = [] then ((StatusBadRequest, Some errInvalidDestination), w)
      else (case url_Parse d hdr of
        Inl err \<Rightarrow> ((StatusBadRequest, Some errInvalidDestination), w)
      | Inr u \<Rightarrow>
          if URL_Host u \<noteq> Host r then ((StatusBadGateway, Some errInvalidDestination), w)
          else (case stripPrefix h (Path r) of
            (src, status, Some err) \<Rightarrow> ((status, Some err), w)
          | (src, status, None) \<Rightarrow>
              (case stripPrefix h (URL_Path u) of
                 (dst, status, Some err) \<Rightarrow> ((status, Some err), w)
               | (dst, status, None) \<Rightarrow>
                   if dst = [] then ((StatusBadGateway, Some errInvalidDestination), w)
                   else if dst = src then ((StatusForbidden, Some errDestinationEqualsSource), w)
                   else if Method r = ''COPY'' then
                     (case confirmLocks h d r [] dst w of
                        ((release, status, Some err), w1) \<Rightarrow> ((status, Some err), w1)
                      | ((release, status, None), w1) \<Rightarrow>
                          (case
                             (let hdr = Header r ''Depth'';
                                  depth = (if hdr \<noteq> [] then parseDepth hdr else infiniteDepth)
                              in if hdr \<noteq> [] \<and> depth \<noteq> 0 \<and> depth \<noteq> infiniteDepth
                                 then ((StatusBadRequest, Some errInvalidDepth), w1)
                                 else copyFiles d src dst (Header r ''Overwrite'' \<noteq> ''F'') depth 0 w1)
                           of (res, w') \<Rightarrow> (res, deferred release w')))
                   else
                     (case confirmLocks h d r src dst w of
                        ((release, status, Some err), w1) \<Rightarrow> ((status, Some err), w1)
                      | ((release, status, None), w1) \<Rightarrow>
                          (case
                             (let hdr = Header r ''Depth''
                              in if hdr \<noteq> [] \<and> parseDepth hdr \<noteq> infiniteDepth
                                 then ((StatusBadRequest, Some errInvalidDepth), w1)
                                 else moveFiles d src dst (Header r ''Overwrite'' = ''T'') w1)
                           of (res, w') \<Rightarrow> (res, deferred release w')))))))"

text \<open>
  The end of \<open>handleLock\<close>, common to the refresh and the create case: the content
  type, the status line when the resource was created, and the lock document.
\<close>

definition writeLockResponse :: "bool \<Rightarrow> string \<Rightarrow> LockDetails \<Rightarrow> ResponseWriter \<Rightarrow> ResponseWriter" where
  "writeLockResponse created token ld resp =
     resp @ [Header_Set ''Content-Type'' ''application/xml; charset=utf-8'']
          @ (if created then [WriteHeader StatusCreated] else [])
          @ [WriteLockInfo token ld]"

definition refreshToken :: "ifHeader \<Rightarrow> string" where
  "refreshToken ih =
     (if length (ih_lists ih) = 1 \<and> length (conditions (ih_lists ih ! 0)) = 1
      then Token (conditions (ih_lists ih ! 0) ! 0) else [])"

definition handleLock ::
  "'w Handler \<Rightarrow> 'w Deps \<Rightarrow> Request \<Rightarrow> ResponseWriter \<Rightarrow> 'w \<Rightarrow> (int \<times> error option) \<times> ResponseWriter \<times> 'w" where
  "handleLock h d r resp w =
     (case parseTimeout d (Header r ''Timeout'') of
        Inl err \<Rightarrow> ((StatusBadRequest, Some err), resp, w)
      | Inr duration \<Rightarrow>
          (case ReadLockInfo d (Body r) of
             (li, status, Some err) \<Rightarrow> ((status, Some err), resp, w)
           | (li, status, None) \<Rightarrow>
               (case time_Now d w of (now, w0) \<Rightarrow>
                 if li = zeroLockInfo then
                   (case parseIfHeader d (Header r ''If'') of
                      None \<Rightarrow> ((StatusBadRequest, Some errInvalidIfHeader), resp, w0)
                    | Some ih \<Rightarrow>
                        (let token = refreshToken ih in
                         if token = [] then ((StatusBadRequest, Some errInvalidLockToken), resp, w0)
                         else (case Refresh (LockSystem h) now token duration w0 of
                                 (Inl err, w1) \<Rightarrow>
                                   if err = ErrNoSuchLock then ((StatusPreconditionFailed, Some err), resp, w1)
                                   else ((StatusInternalServerError, Some err), resp, w1)
                               | (Inr ld, w1) \<Rightarrow>
                                   ((0, None), writeLockResponse False token ld resp, w1))))
                 else
                   (let hdr = Header r ''Depth'';
                        depth = (if hdr \<noteq> [] then parseDepth hdr else infiniteDepth)
                    in if hdr \<noteq> [] \<and> depth \<noteq> 0 \<and> depth \<noteq> infiniteDepth
                       then ((StatusBadRequest, Some errInvalidDepth), resp, w0)
                       else (case stripPrefix h (Path r) of
                         (reqPath, status, Some err) \<Rightarrow> ((status, Some err), resp, w0)
                       | (reqPath, status, None) \<Rightarrow>
                           (let ld = \<lparr>Root = reqPath, Duration = duration,
                                      OwnerXML = Owner_InnerXML li, ZeroDepth = (depth = 0)\<rparr>
                            in (case Create (LockSystem h) now ld w0 of
                                  (Inl err, w1) \<Rightarrow>
                                    if err = ErrLocked then ((StatusLocked, Some err), resp, w1)
                                    else ((StatusInternalServerError, Some err), resp, w1)
                                | (Inr token, w1) \<Rightarrow>
                                    (case
                                       (case Stat (FileSystem h) reqPath w1 of
                                          (Inl serr, w2) \<Rightarrow>
                                            (case OpenFile (FileSystem h) reqPath O_RDWR_CREATE_TRUNC 438 w2 of
                                               (Inl err, w3) \<Rightarrow>
                                                 ((StatusInternalServerError, Some err), resp, w3)
                                             | (Inr f, w3) \<Rightarrow>
                                                 ((0, None),
                                                  writeLockResponse True token ld
                                                    (resp @ [Header_Set ''Lock-Token'' (''<'' @ token @ ''>'')]),
                                                  snd (File_Close (FileSystem h) f w3)))
                                        | (Inr fi, w2) \<Rightarrow>
                                            ((0, None),
                                             writeLockResponse False token ld
                                               (resp @ [Header_Set ''Lock-Token'' (''<'' @ token @ ''>'')]),
                                             w2))
                                     of ((retStatus, retErr), resp', w') \<Rightarrow>
                                       ((retStatus, retErr), resp',
                                        (if retErr \<noteq> None then snd (Unlock (LockSystem h) now token w')
                                         else w'))))))))))"

definition handleUnlock ::
  "'w Handler \<Rightarrow> 'w Deps \<Rightarrow> Request \<Rightarrow> 'w \<Rightarrow> (int \<times> error option) \<times> 'w" where
  "handleUnlock h d r w =
     (let t = Header r ''Lock-Token'' in
      if length t < 2 \<or> t ! 0 \<noteq> CHR ''<'' \<or> t ! (length t - 1) \<noteq> CHR ''>''
      then ((StatusBadRequest, Some errInvalidLockToken), w)
      else (let t' = drop 1 (take (length t - 1) t) in
        (case time_Now d w of (now, w0) \<Rightarrow>
          (case Unlock (LockSystem h) now t' w0 of
             (None, w1) \<Rightarrow> ((StatusNoContent, None), w1)
           | (Some err, w1) \<Rightarrow>
               if err = ErrForbidden then ((StatusForbidden, Some err), w1)
               else if err = ErrLocked then ((StatusLocked, Some err), w1)
               else if err = ErrNoSuchLock then ((StatusConflict, Some err), w1)
               else ((StatusInternalServerError, Some err), w1)))))"

section \<open>Auxiliary notions for the statements\<close>

text \<open>
  \<open>listsFail h d r src dst ls w = Some w'\<close>: run from \<open>w\<close>, the loop of \<open>confirmLocks\<close>
  gets no result from any list of \<open>ls\<close> and leaves the world \<open>w'\<close>. A list gives no
  result when it is passed over before \<open>Confirm\<close> is called, or when its \<open>Confirm\<close>
  call returns \<open>ErrConfirmationFailed\<close>.
\<close>

fun listsFail ::
  "'w Handler \<Rightarrow> 'w Deps \<Rightarrow> Request \<Rightarrow> string \<Rightarrow> string \<Rightarrow> ifList list \<Rightarrow> 'w \<Rightarrow> 'w option" where
  "listsFail h d r src dst [] w = Some w"
| "listsFail h d r src dst (l # ls) w =
     (case effectivePath h d r src l of
        Continue \<Rightarrow> listsFail h d r src dst ls w
      | Return status err \<Rightarrow> None
      | Lsrc lsrc \<Rightarrow>
          (case time_Now d w of (now, w1) \<Rightarrow>
            (case Confirm (LockSystem h) now lsrc dst (conditions l) w1 of
               (Inl err, w2) \<Rightarrow>
                 if err = ErrConfirmationFailed then listsFail h d r src dst ls w2 else None
             | (Inr release, w2) \<Rightarrow> None)))"

text \<open>The temporary lock that \<open>lock\<close> asks the store for.\<close>

definition temporaryLock :: "string \<Rightarrow> LockDetails" where
  "temporaryLock root = \<lparr>Root = root, Duration = infiniteTimeout, OwnerXML = [], ZeroDepth = True\<rparr>"

text \<open>The status \<open>lock\<close> and \<open>handleLock\<close> give to a failed \<open>Create\<close>.\<close>

definition createStatus :: "error \<Rightarrow> int" where
  "createStatus err = (if err = ErrLocked then StatusLocked else StatusInternalServerError)"

section \<open>A concrete server for the examples\<close>

text \<open>
  A small lock store, file system and set of helpers on which the theorems are run. The
  world is the list of the calls made so far, oldest first, so an example shows which
  collaborator was called, with what, and in which order.
\<close>

definition demoLS :: "string list LockSystem" where
  "demoLS = \<lparr>
     Confirm = (\<lambda>now src dst conds w.
       ((case conds of
           [] \<Rightarrow> Inl ErrConfirmationFailed
         | c # cs \<Rightarrow>
             if Token c = ''good'' then Inr (\<lambda>v. v @ [''release ''  @ src])
             else if Token c = ''broken'' then Inl (OtherError ''store'')
             else Inl ErrConfirmationFailed),
        w @ [''Confirm '' @ src])),
     Create = (\<lambda>now ld w.
       ((if Root ld = ''/busy'' then Inl ErrLocked else Inr (''t'' @ Root ld)),
        w @ [''Create '' @ Root ld])),
     Refresh = (\<lambda>now t dur w.
       ((if t = ''t/a'' then Inr \<lparr>Root = ''/a'', Duration = dur, OwnerXML = ''me'', ZeroDepth = False\<rparr>
         else Inl ErrNoSuchLock),
        w @ [''Refresh '' @ t])),
     Unlock = (\<lambda>now t w.
       ((if t = ''t/a'' then None else Some ErrNoSuchLock), w @ [''Unlock '' @ t]))\<rparr>"

definition demoFS :: "string list FileSystem" where
  "demoFS = \<lparr>
     Mkdir = (\<lambda>p perm w. (None, w @ [''Mkdir '' @ p])),
     OpenFile = (\<lambda>p flag perm w.
       ((if p = ''/ro'' then Inl (OtherError ''io'') else Inr 7), w @ [''OpenFile '' @ p])),
     Stat = (\<lambda>p w.
       ((if p = ''/a'' then Inr \<lparr>IsDir = False, ModTime = 0, Size = 0\<rparr> else Inl (NotExistError p)),
        w @ [''Stat '' @ p])),
     File_Stat = (\<lambda>f w. (Inr \<lparr>IsDir = False, ModTime = 0, Size = 0\<rparr>, w @ [''File.Stat''])),
     File_Close = (\<lambda>f w. (None, w @ [''File.Close'']))\<rparr>"

definition demoIf :: "string \<Rightarrow> ifHeader option" where
  "demoIf s =
     (if s = ''(<good>)'' then
        Some \<lparr>ih_lists = [\<lparr>resourceTag = [], conditions = [\<lparr>Not_flag = False, Token = ''good'', ETag = []\<rparr>]\<rparr>]\<rparr>
      else if s = ''(<stale>) (<good>)'' then
        Some \<lparr>ih_lists =
          [\<lparr>resourceTag = [], conditions = [\<lparr>Not_flag = False, Token = ''stale'', ETag = []\<rparr>]\<rparr>,
           \<lparr>resourceTag = [], conditions = [\<lparr>Not_flag = False, Token = ''good'', ETag = []\<rparr>]\<rparr>]\<rparr>
      else if s = ''<http://other/dav/a> (<good>) <http://host/x> (<good>) (<good>)'' then
        Some \<lparr>ih_lists =
          [\<lparr>resourceTag = ''http://other/dav/a'', conditions = [\<lparr>Not_flag = False, Token = ''good'', ETag = []\<rparr>]\<rparr>,
           \<lparr>resourceTag = ''http://host/x'', conditions = [\<lparr>Not_flag = False, Token = ''good'', ETag = []\<rparr>]\<rparr>,
           \<lparr>resourceTag = [], conditions = [\<lparr>Not_flag = False, Token = ''good'', ETag = []\<rparr>]\<rparr>]\<rparr>
      else if s = ''(<t/a>)'' then
        Some \<lparr>ih_lists = [\<lparr>resourceTag = [], conditions = [\<lparr>Not_flag = False, Token = ''t/a'', ETag = []\<rparr>]\<rparr>]\<rparr>
      else if s = ''(<stale>) (<old>)'' then
        Some \<lparr>ih_lists =
          [\<lparr>resourceTag = [], conditions = [\<lparr>Not_flag = False, Token = ''stale'', ETag = []\<rparr>]\<rparr>,
           \<lparr>resourceTag = [], conditions = [\<lparr>Not_flag = False, Token = ''old'', ETag = []\<rparr>]\<rparr>]\<rparr>
      else if s = ''(<stale>) (<broken>) (<good>)'' then
        Some \<lparr>ih_lists =
          [\<lparr>resourceTag = [], conditions = [\<lparr>Not_flag = False, Token = ''stale'', ETag = []\<rparr>]\<rparr>,
           \<lparr>resourceTag = [], conditions = [\<lparr>Not_flag = False, Token = ''broken'', ETag = []\<rparr>]\<rparr>,
           \<lparr>resourceTag = [], conditions = [\<lparr>Not_flag = False, Token = ''good'', ETag = []\<rparr>]\<rparr>]\<rparr>
      else None)"

definition demoDeps :: "string list Deps" where
  "demoDeps = \<lparr>
     time_Now = (\<lambda>w. (0, w)),
     url_Parse = (\<lambda>s.
       if take 12 s = ''http://host/'' then Inr \<lparr>URL_Host = ''host'', URL_Path = drop 11 s\<rparr>
       else if take 13 s = ''http://other/'' then Inr \<lparr>URL_Host = ''other'', URL_Path = drop 12 s\<rparr>
       else Inl (OtherError ''url'')),
     parseIfHeader = demoIf,
     parseTimeout = (\<lambda>s. Inr infiniteTimeout),
     ReadLockInfo = (\<lambda>b.
       if b = [] then (zeroLockInfo, 0, None)
       else (\<lparr>XMLName = ''lockinfo'', Exclusive = True, Shared = False, Write = True,
              Owner_InnerXML = b\<rparr>, 0, None)),
     findETag = (\<lambda>name fi w.
       ((if name = ''/noetag'' then Inl (OtherError ''etag'') else Inr ''etag''), w)),
     copyFiles = (\<lambda>src dst overwrite depth recursion w.
       ((StatusCreated, None),
        w @ [''copyFiles '' @ src @ '' '' @ dst @ (if overwrite then '' overwrite'' else '' keep'')])),
     moveFiles = (\<lambda>src dst overwrite w.
       ((StatusCreated, None),
        w @ [''moveFiles '' @ src @ '' '' @ dst @ (if overwrite then '' overwrite'' else '' keep'')])),
     ServeContent = (\<lambda>name modtime f w. w @ [''ServeContent '' @ name])\<rparr>"

definition demoHandler :: "string list Handler" where
  "demoHandler = \<lparr>Prefix = ''/dav'', FileSystem = demoFS, LockSystem = demoLS\<rparr>"

definition demoRequest :: "string \<Rightarrow> string \<Rightarrow> (string \<times> string) list \<Rightarrow> int \<Rightarrow> string \<Rightarrow> Request" where
  "demoRequest m p hs n b =
     \<lparr>Method = m, Path = p, Host = ''host'',
      Header = (\<lambda>k. case map_of hs k of None \<Rightarrow> [] | Some v \<Rightarrow> v),
      ContentLength = n, Body = b\<rparr>"



section \<open>Basic facts about the coordinator\<close>

text \<open>The defining equations used to run the examples.\<close>

lemmas demo_defs =
  demoHandler_def demoDeps_def demoLS_def demoFS_def demoRequest_def demoIf_def

lemmas coordinator_defs =
  stripPrefix_def TrimPrefix_def HasPrefix_def confirmLocks_def lock_def deferred_def
  effectivePath_def Let_def

lemma stripPrefix_err:
  "stripPrefix h p = (q, st, Some e) \<Longrightarrow> q = p \<and> st = StatusNotFound \<and> e = errPrefixMismatch"
  by (auto simp: stripPrefix_def Let_def split: if_splits)

lemma stripPrefix_ok:
  "stripPrefix h p = (q, st, None) \<Longrightarrow> st = StatusOK"
  by (auto simp: stripPrefix_def Let_def split: if_splits)

lemma lock_err:
  "lock h now root w = ((t, st, Some e), w') \<Longrightarrow>
     t = [] \<and> (st = StatusLocked \<or> st = StatusInternalServerError)"
  by (auto simp: lock_def split: prod.splits sum.splits if_splits)

lemma lock_ok:
  "lock h now root w = ((t, st, None), w') \<Longrightarrow> st = 0"
  by (auto simp: lock_def split: prod.splits sum.splits if_splits)

lemma effectivePath_Return:
  "effectivePath h d r src l = Return st e \<Longrightarrow> st = StatusNotFound \<and> e = errPrefixMismatch"
  by (auto simp: effectivePath_def Let_def split: if_splits sum.splits prod.splits option.splits
      dest: stripPrefix_err)

lemma confirmLists_nil_err:
  "confirmLists h d r src dst ls w = ((rel, st, None), w') \<Longrightarrow> rel \<noteq> None \<and> st = 0"
  by (induction ls arbitrary: w)
     (auto split: lsrc_outcome.splits prod.splits sum.splits if_splits)

lemma confirmLists_err:
  "confirmLists h d r src dst ls w = ((rel, st, Some e), w') \<Longrightarrow>
     rel = None \<and> (st = StatusNotFound \<or> st = StatusPreconditionFailed \<or> st = StatusInternalServerError)"
  by (induction ls arbitrary: w)
     (auto split: lsrc_outcome.splits prod.splits sum.splits if_splits dest: effectivePath_Return)

text \<open>
  When \<open>confirmLocks\<close> returns a nil error, the release function is not nil and the
  status is 0: the deferred call in the handlers always has a function to call.
\<close>

lemma confirmLocks_release:
  "confirmLocks h d r src dst w = ((rel, st, None), w') \<Longrightarrow> rel \<noteq> None \<and> st = 0"
  by (auto simp: confirmLocks_def Let_def split: if_splits prod.splits option.splits
      dest: confirmLists_nil_err lock_ok)

lemma confirmLocks_err:
  "confirmLocks h d r src dst w = ((rel, st, Some e), w') \<Longrightarrow>
     rel = None \<and> st \<in> {StatusBadRequest, StatusNotFound, StatusPreconditionFailed, StatusLocked,
       StatusInternalServerError}"
  by (auto simp: confirmLocks_def Let_def split: if_splits prod.splits option.splits
      dest: confirmLists_err lock_err)

section \<open>UNLOCK\<close>

lemma coded_url_iff:
  "(length t < 2 \<or> t ! 0 \<noteq> CHR ''<'' \<or> t ! (length t - 1) \<noteq> CHR ''>'') \<longleftrightarrow>
     (\<nexists>tok. t = CHR ''<'' # tok @ [CHR ''>''])"
proof
  assume a: "length t < 2 \<or> t ! 0 \<noteq> CHR ''<'' \<or> t ! (length t - 1) \<noteq> CHR ''>''"
  show "\<nexists>tok. t = CHR ''<'' # tok @ [CHR ''>'']"
  proof
    assume "\<exists>tok. t = CHR ''<'' # tok @ [CHR ''>'']"
    then obtain tok where "t = CHR ''<'' # tok @ [CHR ''>'']" by blast
    with a show False by (auto simp: nth_append)
  qed
next
  assume n: "\<nexists>tok. t = CHR ''<'' # tok @ [CHR ''>'']"
  show "length t < 2 \<or> t ! 0 \<noteq> CHR ''<'' \<or> t ! (length t - 1) \<noteq> CHR ''>''"
  proof (rule ccontr)
    assume "\<not> ?thesis"
    then have l: "2 \<le> length t" and h: "t ! 0 = CHR ''<''" and e: "t ! (length t - 1) = CHR ''>''"
      by auto
    from l obtain a u where t: "t = a # u" by (cases t) auto
    with l have "u \<noteq> []" by auto
    then obtain v b where u: "u = v @ [b]" by (metis rev_exhaust)
    from h t have "a = CHR ''<''" by simp
    moreover from e t u have "b = CHR ''>''" by (simp add: nth_append)
    ultimately have "t = CHR ''<'' # v @ [CHR ''>'']" using t u by simp
    with n show False by blast
  qed
qed

text \<open>
  C6. For every UNLOCK request: when the Lock-Token header is not of the form
  \<open><...>\<close> (no \<open>tok\<close> with header \<open>= '<' # tok @ '>'\<close>), the handler returns 400 with
  \<open>errInvalidLockToken\<close> and calls nothing. When the header is \<open><tok>\<close>, the handler
  reads the clock, calls \<open>Unlock\<close> with exactly \<open>tok\<close> (the brackets stripped), returns
  the error of \<open>Unlock\<close> unchanged, leaves the world as \<open>Unlock\<close> left it, and the status
  is 204 for nil, 403 for \<open>ErrForbidden\<close>, 423 for \<open>ErrLocked\<close>, 409 for
  \<open>ErrNoSuchLock\<close> and 500 for every other error.
\<close>

theorem handleUnlock_status:
  "((\<nexists>tok. Header r ''Lock-Token'' = CHR ''<'' # tok @ [CHR ''>'']) \<longrightarrow>
      handleUnlock h d r w = ((StatusBadRequest, Some errInvalidLockToken), w))
   \<and> (\<forall>tok now w0 e w1.
        Header r ''Lock-Token'' = CHR ''<'' # tok @ [CHR ''>''] \<and> time_Now d w = (now, w0)
          \<and> Unlock (LockSystem h) now tok w0 = (e, w1) \<longrightarrow>
        handleUnlock h d r w =
          (((case e of None \<Rightarrow> StatusNoContent
             | Some err \<Rightarrow>
                 if err = ErrForbidden then StatusForbidden
                 else if err = ErrLocked then StatusLocked
                 else if err = ErrNoSuchLock then StatusConflict
                 else StatusInternalServerError), e), w1))"
proof (intro conjI impI allI)
  assume "\<nexists>tok. Header r ''Lock-Token'' = CHR ''<'' # tok @ [CHR ''>'']"
  then show "handleUnlock h d r w = ((StatusBadRequest, Some errInvalidLockToken), w)"
    using coded_url_iff [of "Header r ''Lock-Token''"]
    by (simp add: handleUnlock_def Let_def)
next
  fix tok now w0 e w1
  assume a: "Header r ''Lock-Token'' = CHR ''<'' # tok @ [CHR ''>''] \<and> time_Now d w = (now, w0)
          \<and> Unlock (LockSystem h) now tok w0 = (e, w1)"
  then show "handleUnlock h d r w =
          (((case e of None \<Rightarrow> StatusNoContent
             | Some err \<Rightarrow>
                 if err = ErrForbidden then StatusForbidden
                 else if err = ErrLocked then StatusLocked
                 else if err = ErrNoSuchLock then StatusConflict
                 else StatusInternalServerError), e), w1)"
    by (cases e) (simp_all add: handleUnlock_def Let_def nth_append)
qed

text \<open>
  On the example server: a token the store does not know gives 409, the token of the
  lock on \<open>/a\<close> gives 204, and a header without the opening bracket gives 400 with no
  call on the store.
\<close>

theorem handleUnlock_status_witness:
  "handleUnlock demoHandler demoDeps (demoRequest ''UNLOCK'' ''/dav/a'' [(''Lock-Token'', ''<other>'')] 0 []) []
     = ((StatusConflict, Some ErrNoSuchLock), [''Unlock other''])
   \<and> handleUnlock demoHandler demoDeps (demoRequest ''UNLOCK'' ''/dav/a'' [(''Lock-Token'', ''<t/a>'')] 0 []) []
     = ((StatusNoContent, None), [''Unlock t/a''])
   \<and> handleUnlock demoHandler demoDeps (demoRequest ''UNLOCK'' ''/dav/a'' [(''Lock-Token'', ''t/a>'')] 0 []) []
     = ((StatusBadRequest, Some errInvalidLockToken), [])"
  using handleUnlock_status [of "demoRequest ''UNLOCK'' ''/dav/a'' [(''Lock-Token'', ''<other>'')] 0 []"
      demoHandler demoDeps "[]"]
  by (simp add: handleUnlock_def demoHandler_def demoDeps_def demoLS_def demoRequest_def)

section \<open>MKCOL\<close>

text \<open>
  C9. \<open>handleMkcol\<close> returns 415 only when the request's ContentLength is strictly
  greater than 0: whatever the prefix, the locks and the file system do, a returned
  status 415 implies \<open>ContentLength > 0\<close>. Once the prefix is stripped and
  \<open>confirmLocks\<close> has succeeded, a positive ContentLength gives 415 with no call of
  \<open>Mkdir\<close>, and every other ContentLength (0, or the \<open>-1\<close> of an unknown length) goes
  to \<open>Mkdir\<close> on the stripped path with mode \<open>0777\<close>, whose result decides the status
  (201, or 409 for a not-exist error, or 405). The locks are released in both cases.
\<close>

theorem handleMkcol_content_length:
  "(fst (fst (handleMkcol h d r w)) = StatusUnsupportedMediaType \<longrightarrow> ContentLength r > 0)
   \<and> (\<forall>reqPath st release st' w1.
        stripPrefix h (Path r) = (reqPath, st, None)
          \<and> confirmLocks h d r reqPath [] w = ((release, st', None), w1) \<longrightarrow>
        (ContentLength r > 0 \<longrightarrow>
           handleMkcol h d r w = ((StatusUnsupportedMediaType, None), deferred release w1))
        \<and> (ContentLength r \<le> 0 \<longrightarrow>
             (\<forall>e w2. Mkdir (FileSystem h) reqPath 511 w1 = (e, w2) \<longrightarrow>
                handleMkcol h d r w =
                  (((case e of None \<Rightarrow> StatusCreated
                     | Some err \<Rightarrow> if os_IsNotExist err then StatusConflict else StatusMethodNotAllowed), e),
                   deferred release w2))))"
proof (intro conjI impI allI)
  assume a: "fst (fst (handleMkcol h d r w)) = StatusUnsupportedMediaType"
  show "ContentLength r > 0"
  proof (rule ccontr)
    assume n: "\<not> ContentLength r > 0"
    from a n show False
      by (auto simp: handleMkcol_def split: prod.splits option.splits if_splits
          dest: stripPrefix_err confirmLocks_err)
  qed
next
  fix reqPath st release st' w1
  assume "stripPrefix h (Path r) = (reqPath, st, None)
          \<and> confirmLocks h d r reqPath [] w = ((release, st', None), w1)"
    and "ContentLength r > 0"
  then show "handleMkcol h d r w = ((StatusUnsupportedMediaType, None), deferred release w1)"
    by (simp add: handleMkcol_def)
next
  fix reqPath st release st' w1 e w2
  assume "stripPrefix h (Path r) = (reqPath, st, None)
          \<and> confirmLocks h d r reqPath [] w = ((release, st', None), w1)"
    and "ContentLength r \<le> 0" and "Mkdir (FileSystem h) reqPath 511 w1 = (e, w2)"
  then show "handleMkcol h d r w =
                  (((case e of None \<Rightarrow> StatusCreated
                     | Some err \<Rightarrow> if os_IsNotExist err then StatusConflict else StatusMethodNotAllowed), e),
                   deferred release w2)"
    by (cases e) (simp_all add: handleMkcol_def)
qed

text \<open>
  On the example server: a MKCOL with an unknown body length (\<open>-1\<close>) reaches \<open>Mkdir\<close>
  and gives 201; the same request with ContentLength 3 gives 415 and never reaches
  \<open>Mkdir\<close>.
\<close>

theorem handleMkcol_content_length_witness:
  "handleMkcol demoHandler demoDeps (demoRequest ''MKCOL'' ''/dav/c'' [] (- 1) ''x'') []
     = ((StatusCreated, None), [''Create /c'', ''Mkdir /c'', ''Unlock t/c''])
   \<and> handleMkcol demoHandler demoDeps (demoRequest ''MKCOL'' ''/dav/c'' [] 3 ''xyz'') []
     = ((StatusUnsupportedMediaType, None), [''Create /c'', ''Unlock t/c''])
   \<and> ContentLength (demoRequest ''MKCOL'' ''/dav/c'' [] 3 ''xyz'') > 0"
  using handleMkcol_content_length
    [of demoHandler demoDeps "demoRequest ''MKCOL'' ''/dav/c'' [] 3 ''xyz''" "[]"]
  by (simp add: handleMkcol_def demo_defs coordinator_defs)

section \<open>GET, HEAD and POST\<close>

text \<open>
  C10 as stated fails. The claim says that 405 is the only status other than 404 that
  \<open>handleGetHeadPost\<close> gives to a failure. On the example server the resource
  \<open>/noetag\<close> opens, is a regular file, and \<open>findETag\<close> fails on it: the handler
  returns 500 with that error.
\<close>

theorem handleGetHeadPost_etag_counterexample:
  "fst (handleGetHeadPost demoHandler demoDeps (demoRequest ''GET'' ''/dav/noetag'' [] 0 []) [] [])
     = (StatusInternalServerError, Some (OtherError ''etag''))"
  by (simp add: handleGetHeadPost_def demo_defs coordinator_defs)

text \<open>
  C10, amended. Once the prefix is stripped, \<open>handleGetHeadPost\<close> returns 404 for every
  failure of \<open>OpenFile\<close> and for every failure of the following \<open>Stat\<close>, with the
  error as it is and whatever its kind; it returns 405 with a nil error when the opened
  resource is a directory, and 500 when \<open>findETag\<close> fails on a regular file. These are
  its only statuses besides the 0 of a served file: in particular a status 500 never
  comes from \<open>OpenFile\<close> or \<open>Stat\<close>. An opened file is closed on every path.
\<close>

theorem handleGetHeadPost_status:
  "fst (fst (handleGetHeadPost h d r resp w))
     \<in> {0, StatusNotFound, StatusMethodNotAllowed, StatusInternalServerError}
   \<and> (\<forall>reqPath st. stripPrefix h (Path r) = (reqPath, st, None) \<longrightarrow>
        (\<forall>e w1. OpenFile (FileSystem h) reqPath O_RDONLY 0 w = (Inl e, w1) \<longrightarrow>
           handleGetHeadPost h d r resp w = ((StatusNotFound, Some e), resp, w1))
        \<and> (\<forall>f w1. OpenFile (FileSystem h) reqPath O_RDONLY 0 w = (Inr f, w1) \<longrightarrow>
             (\<forall>e w2. File_Stat (FileSystem h) f w1 = (Inl e, w2) \<longrightarrow>
                handleGetHeadPost h d r resp w =
                  ((StatusNotFound, Some e), resp, snd (File_Close (FileSystem h) f w2)))
             \<and> (\<forall>fi w2. File_Stat (FileSystem h) f w1 = (Inr fi, w2) \<longrightarrow>
                  (IsDir fi \<longrightarrow>
                     handleGetHeadPost h d r resp w =
                       ((StatusMethodNotAllowed, None), resp, snd (File_Close (FileSystem h) f w2)))
                  \<and> (\<not> IsDir fi \<longrightarrow>
                       (\<forall>e w3. findETag d reqPath fi w2 = (Inl e, w3) \<longrightarrow>
                          handleGetHeadPost h d r resp w =
                            ((StatusInternalServerError, Some e), resp,
                             snd (File_Close (FileSystem h) f w3)))
                       \<and> (\<forall>etag w3. findETag d reqPath fi w2 = (Inr etag, w3) \<longrightarrow>
                            fst (handleGetHeadPost h d r resp w) = (0, None))))))"
  apply (rule conjI)
  subgoal
    by (auto simp: handleGetHeadPost_def split: prod.splits option.splits sum.splits
        dest: stripPrefix_err)
  subgoal
    by (simp add: handleGetHeadPost_def)
  done

text \<open>
  On the example server: \<open>/ro\<close> cannot be opened, for a reason that is not a not-exist
  error, and the status is 404; \<open>/a\<close> is served with status 0.
\<close>

theorem handleGetHeadPost_status_witness:
  "handleGetHeadPost demoHandler demoDeps (demoRequest ''GET'' ''/dav/ro'' [] 0 []) [] []
     = ((StatusNotFound, Some (OtherError ''io'')), [], [''OpenFile /ro''])
   \<and> \<not> os_IsNotExist (OtherError ''io'')
   \<and> handleGetHeadPost demoHandler demoDeps (demoRequest ''GET'' ''/dav/a'' [] 0 []) [] []
     = ((0, None), [Header_Set ''ETag'' ''etag'', Serve ''/a'' 0 7],
        [''OpenFile /a'', ''File.Stat'', ''ServeContent /a'', ''File.Close''])"
  using handleGetHeadPost_status
    [of demoHandler demoDeps "demoRequest ''GET'' ''/dav/ro'' [] 0 []" "[]" "[]"]
  by (simp add: handleGetHeadPost_def demo_defs coordinator_defs)

section \<open>COPY and MOVE\<close>

lemma parseDepth_cases:
  "parseDepth ''0'' = 0" "parseDepth ''1'' = 1" "parseDepth ''infinity'' = infiniteDepth"
  "s \<noteq> ''0'' \<Longrightarrow> s \<noteq> ''1'' \<Longrightarrow> s \<noteq> ''infinity'' \<Longrightarrow> parseDepth s = invalidDepth"
  by (simp_all add: parseDepth_def)

lemma parseDepth_zero_iff: "parseDepth s = 0 \<longleftrightarrow> s = ''0''"
  by (simp add: parseDepth_def infiniteDepth_def invalidDepth_def)

lemma parseDepth_infinite_iff: "parseDepth s = infiniteDepth \<longleftrightarrow> s = ''infinity''"
  by (simp add: parseDepth_def infiniteDepth_def invalidDepth_def)

text \<open>
  What \<open>handleCopyMove\<close> does once the Destination header is accepted, both prefixes are
  stripped and \<open>confirmLocks\<close> has succeeded: the Depth check, then the engine.
\<close>

lemma handleCopyMove_copy:
  assumes "Header r ''Destination'' \<noteq> []"
    and "url_Parse d (Header r ''Destination'') = Inr u"
    and "URL_Host u = Host r"
    and "stripPrefix h (Path r) = (src, st1, None)"
    and "stripPrefix h (URL_Path u) = (dst, st2, None)"
    and "dst \<noteq> []" and "dst \<noteq> src"
    and "Method r = ''COPY''"
    and "confirmLocks h d r [] dst w = ((release, st3, None), w1)"
  shows "handleCopyMove h d r w =
     (case
        (if Header r ''Depth'' \<noteq> [] \<and> parseDepth (Header r ''Depth'') \<noteq> 0
              \<and> parseDepth (Header r ''Depth'') \<noteq> infiniteDepth
         then ((StatusBadRequest, Some errInvalidDepth), w1)
         else copyFiles d src dst (Header r ''Overwrite'' \<noteq> ''F'')
                (if Header r ''Depth'' \<noteq> [] then parseDepth (Header r ''Depth'') else infiniteDepth) 0 w1)
      of (res, w') \<Rightarrow> (res, deferred release w'))"
  using assms by (simp add: handleCopyMove_def Let_def)

lemma handleCopyMove_move:
  assumes "Header r ''Destination'' \<noteq> []"
    and "url_Parse d (Header r ''Destination'') = Inr u"
    and "URL_Host u = Host r"
    and "stripPrefix h (Path r) = (src, st1, None)"
    and "stripPrefix h (URL_Path u) = (dst, st2, None)"
    and "dst \<noteq> []" and "dst \<noteq> src"
    and "Method r \<noteq> ''COPY''"
    and "confirmLocks h d r src dst w = ((release, st3, None), w1)"
  shows "handleCopyMove h d r w =
     (case
        (if Header r ''Depth'' \<noteq> [] \<and> parseDepth (Header r ''Depth'') \<noteq> infiniteDepth
         then ((StatusBadRequest, Some errInvalidDepth), w1)
         else moveFiles d src dst (Header r ''Overwrite'' = ''T'') w1)
      of (res, w') \<Rightarrow> (res, deferred release w'))"
  using assms by (simp add: handleCopyMove_def Let_def)

text \<open>
  C7. Take a COPY or MOVE request that passes the Destination checks (header present,
  parsed, same host, both prefixes stripped, destination not empty and not the source)
  and whose \<open>confirmLocks\<close> succeeds. A header is present when \<open>Header.Get\<close> does not
  return the empty string.

  COPY: with no Depth header the engine is called with depth \<open>infiniteDepth\<close>; with a
  Depth header that parses to neither 0 nor \<open>infiniteDepth\<close> the handler returns 400
  with \<open>errInvalidDepth\<close>, releases the locks and does not call the engine; with a
  Depth header that parses to 0 or \<open>infiniteDepth\<close> the engine is called with that
  depth. MOVE: a Depth header that does not parse to \<open>infiniteDepth\<close> gives 400 in the
  same way. \<open>parseDepth\<close> gives 0 exactly on \<open>"0"\<close>, \<open>infiniteDepth\<close> exactly on
  \<open>"infinity"\<close>, 1 on \<open>"1"\<close> and \<open>invalidDepth\<close> on everything else, so \<open>"1"\<close> and
  malformed values are rejected for both methods.
\<close>

theorem handleCopyMove_depth:
  assumes "Header r ''Destination'' \<noteq> []"
    and "url_Parse d (Header r ''Destination'') = Inr u"
    and "URL_Host u = Host r"
    and "stripPrefix h (Path r) = (src, st1, None)"
    and "stripPrefix h (URL_Path u) = (dst, st2, None)"
    and "dst \<noteq> []" and "dst \<noteq> src"
  shows
   "(Method r = ''COPY'' \<longrightarrow>
       (\<forall>release st w1. confirmLocks h d r [] dst w = ((release, st, None), w1) \<longrightarrow>
          (Header r ''Depth'' = [] \<longrightarrow>
             handleCopyMove h d r w =
               (case copyFiles d src dst (Header r ''Overwrite'' \<noteq> ''F'') infiniteDepth 0 w1 of
                  (res, w') \<Rightarrow> (res, deferred release w')))
          \<and> (Header r ''Depth'' \<noteq> [] \<and> parseDepth (Header r ''Depth'') \<noteq> 0
                \<and> parseDepth (Header r ''Depth'') \<noteq> infiniteDepth \<longrightarrow>
               handleCopyMove h d r w =
                 ((StatusBadRequest, Some errInvalidDepth), deferred release w1))
          \<and> (Header r ''Depth'' \<noteq> [] \<and> (parseDepth (Header r ''Depth'') = 0
                \<or> parseDepth (Header r ''Depth'') = infiniteDepth) \<longrightarrow>
               handleCopyMove h d r w =
                 (case copyFiles d src dst (Header r ''Overwrite'' \<noteq> ''F'')
                         (parseDepth (Header r ''Depth'')) 0 w1 of
                    (res, w') \<Rightarrow> (res, deferred release w')))))
    \<and> (Method r = ''MOVE'' \<longrightarrow>
         (\<forall>release st w1. confirmLocks h d r src dst w = ((release, st, None), w1) \<longrightarrow>
            (Header r ''Depth'' \<noteq> [] \<and> parseDepth (Header r ''Depth'') \<noteq> infiniteDepth \<longrightarrow>
               handleCopyMove h d r w =
                 ((StatusBadRequest, Some errInvalidDepth), deferred release w1))))
    \<and> (\<forall>s. (parseDepth s = 0 \<longleftrightarrow> s = ''0'') \<and> (parseDepth s = infiniteDepth \<longleftrightarrow> s = ''infinity'')
           \<and> (s \<noteq> ''0'' \<and> s \<noteq> ''infinity'' \<longrightarrow> parseDepth s = 1 \<or> parseDepth s = invalidDepth))"
proof (intro conjI impI allI)
  fix release st w1
  assume m: "Method r = ''COPY''" and c: "confirmLocks h d r [] dst w = ((release, st, None), w1)"
  note eq = handleCopyMove_copy [OF assms m c]
  { assume "Header r ''Depth'' = []"
    then show "handleCopyMove h d r w =
               (case copyFiles d src dst (Header r ''Overwrite'' \<noteq> ''F'') infiniteDepth 0 w1 of
                  (res, w') \<Rightarrow> (res, deferred release w'))"
      by (simp add: eq) }
  { assume "Header r ''Depth'' \<noteq> [] \<and> parseDepth (Header r ''Depth'') \<noteq> 0
                \<and> parseDepth (Header r ''Depth'') \<noteq> infiniteDepth"
    then show "handleCopyMove h d r w =
                 ((StatusBadRequest, Some errInvalidDepth), deferred release w1)"
      by (simp add: eq) }
  { assume "Header r ''Depth'' \<noteq> [] \<and> (parseDepth (Header r ''Depth'') = 0
                \<or> parseDepth (Header r ''Depth'') = infiniteDepth)"
    then show "handleCopyMove h d r w =
                 (case copyFiles d src dst (Header r ''Overwrite'' \<noteq> ''F'')
                         (parseDepth (Header r ''Depth'')) 0 w1 of
                    (res, w') \<Rightarrow> (res, deferred release w'))"
      by (auto simp: eq) }
next
  fix release st w1
  assume m: "Method r = ''MOVE''" and c: "confirmLocks h d r src dst w = ((release, st, None), w1)"
    and dp: "Header r ''Depth'' \<noteq> [] \<and> parseDepth (Header r ''Depth'') \<noteq> infiniteDepth"
  from m have m': "Method r \<noteq> ''COPY''" by simp
  show "handleCopyMove h d r w = ((StatusBadRequest, Some errInvalidDepth), deferred release w1)"
    using dp by (simp add: handleCopyMove_move [OF assms m' c])
next
  fix s show "parseDepth s = 0 \<longleftrightarrow> s = ''0''" by (rule parseDepth_zero_iff)
next
  fix s show "parseDepth s = infiniteDepth \<longleftrightarrow> s = ''infinity''" by (rule parseDepth_infinite_iff)
next
  fix s assume "s \<noteq> ''0'' \<and> s \<noteq> ''infinity''"
  then show "parseDepth s = 1 \<or> parseDepth s = invalidDepth" by (simp add: parseDepth_def)
qed

text \<open>
  On the example server, with prefix \<open>/dav\<close>: a COPY with \<open>Depth: 1\<close> and a MOVE with
  \<open>Depth: 0\<close> are answered 400 after the temporary locks are released and the engine is
  not called; a COPY without a Depth header reaches the engine.
\<close>

theorem handleCopyMove_depth_witness:
  "handleCopyMove demoHandler demoDeps
     (demoRequest ''COPY'' ''/dav/a'' [(''Destination'', ''http://host/dav/b''), (''Depth'', ''1'')] 0 []) []
     = ((StatusBadRequest, Some errInvalidDepth), [''Create /b'', ''Unlock t/b''])
   \<and> handleCopyMove demoHandler demoDeps
     (demoRequest ''MOVE'' ''/dav/a'' [(''Destination'', ''http://host/dav/b''), (''Depth'', ''0'')] 0 []) []
     = ((StatusBadRequest, Some errInvalidDepth),
        [''Create /a'', ''Create /b'', ''Unlock t/b'', ''Unlock t/a''])
   \<and> handleCopyMove demoHandler demoDeps
     (demoRequest ''COPY'' ''/dav/a'' [(''Destination'', ''http://host/dav/b'')] 0 []) []
     = ((StatusCreated, None), [''Create /b'', ''copyFiles /a /b overwrite'', ''Unlock t/b''])"
  using handleCopyMove_depth
    [of "demoRequest ''COPY'' ''/dav/a'' [(''Destination'', ''http://host/dav/b''), (''Depth'', ''1'')] 0 []"
        demoDeps "\<lparr>URL_Host = ''host'', URL_Path = ''/dav/b''\<rparr>" demoHandler "''/a''" 200 "''/b''" 200 "[]"]
  by (simp add: handleCopyMove_def demo_defs coordinator_defs parseDepth_def infiniteDepth_def
      invalidDepth_def)

text \<open>
  The overwrite flag that \<open>handleCopyMove\<close> hands to the engine, for a request that
  passes the Destination checks, whose \<open>confirmLocks\<close> succeeds and whose Depth header
  is accepted: COPY passes \<open>Overwrite \<noteq> "F"\<close>, MOVE passes \<open>Overwrite = "T"\<close>.
\<close>

lemma handleCopyMove_overwrite:
  assumes "Header r ''Destination'' \<noteq> []"
    and "url_Parse d (Header r ''Destination'') = Inr u"
    and "URL_Host u = Host r"
    and "stripPrefix h (Path r) = (src, st1, None)"
    and "stripPrefix h (URL_Path u) = (dst, st2, None)"
    and "dst \<noteq> []" and "dst \<noteq> src"
    and "Header r ''Depth'' = []"
  shows "Method r = ''COPY'' \<Longrightarrow> confirmLocks h d r [] dst w = ((release, st, None), w1) \<Longrightarrow>
           handleCopyMove h d r w =
             (case copyFiles d src dst (Header r ''Overwrite'' \<noteq> ''F'') infiniteDepth 0 w1 of
                (res, w') \<Rightarrow> (res, deferred release w'))"
    and "Method r = ''MOVE'' \<Longrightarrow> confirmLocks h d r src dst w = ((release, st, None), w1) \<Longrightarrow>
           handleCopyMove h d r w =
             (case moveFiles d src dst (Header r ''Overwrite'' = ''T'') w1 of
                (res, w') \<Rightarrow> (res, deferred release w'))"
  using assms by (simp_all add: handleCopyMove_def Let_def)

text \<open>
  C1 does not hold of the code for MOVE. The claim: for COPY and for MOVE alike the
  engine gets overwrite = false exactly when the Overwrite header is \<open>"F"\<close>, so a
  request without the header overwrites. On the example server a MOVE of \<open>/dav/a\<close> to
  \<open>/dav/b\<close> without an Overwrite header calls \<open>moveFiles\<close> with overwrite = false
  (\<open>keep\<close>), while the COPY with the same headers calls \<open>copyFiles\<close> with overwrite =
  true. With \<open>Overwrite: F\<close> both pass false, with \<open>Overwrite: T\<close> both pass true.
\<close>

theorem handleCopyMove_move_without_overwrite:
  "handleCopyMove demoHandler demoDeps
     (demoRequest ''MOVE'' ''/dav/a'' [(''Destination'', ''http://host/dav/b'')] 0 []) []
     = ((StatusCreated, None),
        [''Create /a'', ''Create /b'', ''moveFiles /a /b keep'', ''Unlock t/b'', ''Unlock t/a''])
   \<and> handleCopyMove demoHandler demoDeps
     (demoRequest ''COPY'' ''/dav/a'' [(''Destination'', ''http://host/dav/b'')] 0 []) []
     = ((StatusCreated, None), [''Create /b'', ''copyFiles /a /b overwrite'', ''Unlock t/b''])
   \<and> handleCopyMove demoHandler demoDeps
     (demoRequest ''MOVE'' ''/dav/a'' [(''Destination'', ''http://host/dav/b''), (''Overwrite'', ''F'')] 0 []) []
     = ((StatusCreated, None),
        [''Create /a'', ''Create /b'', ''moveFiles /a /b keep'', ''Unlock t/b'', ''Unlock t/a''])
   \<and> handleCopyMove demoHandler demoDeps
     (demoRequest ''MOVE'' ''/dav/a'' [(''Destination'', ''http://host/dav/b''), (''Overwrite'', ''T'')] 0 []) []
     = ((StatusCreated, None),
        [''Create /a'', ''Create /b'', ''moveFiles /a /b overwrite'', ''Unlock t/b'', ''Unlock t/a''])"
  by (simp add: handleCopyMove_def demo_defs coordinator_defs)

section \<open>Temporary locks\<close>

lemma lock_Create:
  "lock h now root w =
     (case Create (LockSystem h) now (temporaryLock root) w of
        (Inl e, w') \<Rightarrow> (([], createStatus e, Some e), w')
      | (Inr token, w') \<Rightarrow> ((token, 0, None), w'))"
  by (simp add: lock_def temporaryLock_def createStatus_def split: prod.splits sum.splits)




text \<open>
  The same for every store: when \<open>Create\<close> succeeds on \<open>src\<close> with the empty token
  and fails on \<open>dst\<close>, \<open>confirmLocks\<close> takes the \<open>src\<close> lock for not taken and
  returns the failure of the \<open>dst\<close> lock without a call of \<open>Unlock\<close>.
\<close>

lemma confirmLocks_empty_token:
  assumes "Header r ''If'' = []" and "time_Now d w = (now, w0)"
    and "src \<noteq> []" and "dst \<noteq> []"
    and "Create (LockSystem h) now (temporaryLock src) w0 = (Inr [], w1)"
    and "Create (LockSystem h) now (temporaryLock dst) w1 = (Inl e, w2)"
  shows "confirmLocks h d r src dst w = ((None, createStatus e, Some e), w2)"
  using assms by (simp add: confirmLocks_def lock_Create Let_def)

section \<open>LOCK\<close>

text \<open>
  C4. Take a LOCK request with a non-empty body (\<open>ReadLockInfo\<close> returns a lock info
  other than the zero value), an accepted Timeout and Depth and a path under the prefix,
  and let \<open>Create\<close> on the lock store succeed with \<open>token\<close>. The rest of the handler
  fails in one way only: the resource does not exist (\<open>Stat\<close> fails) and creating it
  fails (\<open>OpenFile\<close> fails). Then the handler returns 500 with the error of
  \<open>OpenFile\<close>, writes nothing to the response, and its last action is \<open>Unlock\<close> on
  \<open>token\<close>, with the time of the \<open>Create\<close>. Conversely, whenever the handler returns a
  non-nil error after the \<open>Create\<close>, that is what happened; and when it returns a nil
  error, \<open>Unlock\<close> is not called and the lock stays.
\<close>

theorem handleLock_rollback:
  assumes "parseTimeout d (Header r ''Timeout'') = Inr duration"
    and "ReadLockInfo d (Body r) = (li, st0, None)"
    and "li \<noteq> zeroLockInfo"
    and "time_Now d w = (now, w0)"
    and "Header r ''Depth'' = [] \<or> parseDepth (Header r ''Depth'') = 0
           \<or> parseDepth (Header r ''Depth'') = infiniteDepth"
    and "stripPrefix h (Path r) = (reqPath, st1, None)"
    and "Create (LockSystem h) now
           \<lparr>Root = reqPath, Duration = duration, OwnerXML = Owner_InnerXML li,
             ZeroDepth = ((if Header r ''Depth'' \<noteq> [] then parseDepth (Header r ''Depth'')
                           else infiniteDepth) = 0)\<rparr> w0 = (Inr token, w1)"
  shows
   "(\<forall>serr w2 e w3.
        Stat (FileSystem h) reqPath w1 = (Inl serr, w2)
          \<and> OpenFile (FileSystem h) reqPath O_RDWR_CREATE_TRUNC 438 w2 = (Inl e, w3) \<longrightarrow>
        handleLock h d r resp w =
          ((StatusInternalServerError, Some e), resp, snd (Unlock (LockSystem h) now token w3)))
    \<and> (\<forall>status e resp' w'.
          handleLock h d r resp w = ((status, Some e), resp', w') \<longrightarrow>
          (\<exists>serr w2 w3.
             Stat (FileSystem h) reqPath w1 = (Inl serr, w2)
               \<and> OpenFile (FileSystem h) reqPath O_RDWR_CREATE_TRUNC 438 w2 = (Inl e, w3)
               \<and> status = StatusInternalServerError \<and> resp' = resp
               \<and> w' = snd (Unlock (LockSystem h) now token w3)))
    \<and> (\<forall>status resp' w'.
          handleLock h d r resp w = ((status, None), resp', w') \<longrightarrow>
          status = 0
          \<and> (\<exists>w2. (\<exists>fi. Stat (FileSystem h) reqPath w1 = (Inr fi, w2) \<and> w' = w2)
                  \<or> (\<exists>serr f w3. Stat (FileSystem h) reqPath w1 = (Inl serr, w2)
                        \<and> OpenFile (FileSystem h) reqPath O_RDWR_CREATE_TRUNC 438 w2 = (Inr f, w3)
                        \<and> w' = snd (File_Close (FileSystem h) f w3))))"
proof -
  let ?rest = "(case Stat (FileSystem h) reqPath w1 of
       (Inl serr, w2) \<Rightarrow>
         (case OpenFile (FileSystem h) reqPath O_RDWR_CREATE_TRUNC 438 w2 of
            (Inl err, w3) \<Rightarrow> ((StatusInternalServerError, Some err), resp, w3)
          | (Inr f, w3) \<Rightarrow>
              ((0, None),
               writeLockResponse True token
                 \<lparr>Root = reqPath, Duration = duration, OwnerXML = Owner_InnerXML li,
                   ZeroDepth = ((if Header r ''Depth'' \<noteq> [] then parseDepth (Header r ''Depth'')
                                 else infiniteDepth) = 0)\<rparr>
                 (resp @ [Header_Set ''Lock-Token'' (''<'' @ token @ ''>'')]),
               snd (File_Close (FileSystem h) f w3)))
     | (Inr fi, w2) \<Rightarrow>
         ((0, None),
          writeLockResponse False token
            \<lparr>Root = reqPath, Duration = duration, OwnerXML = Owner_InnerXML li,
              ZeroDepth = ((if Header r ''Depth'' \<noteq> [] then parseDepth (Header r ''Depth'')
                            else infiniteDepth) = 0)\<rparr>
            (resp @ [Header_Set ''Lock-Token'' (''<'' @ token @ ''>'')]),
          w2))"
  have eq: "handleLock h d r resp w =
      (case ?rest of ((retStatus, retErr), resp', w') \<Rightarrow>
         ((retStatus, retErr), resp',
          (if retErr \<noteq> None then snd (Unlock (LockSystem h) now token w') else w')))"
    using assms by (auto simp: handleLock_def Let_def)
  show ?thesis
    unfolding eq
    by (auto split: prod.splits sum.splits)
qed

text \<open>
  On the example server: \<open>/ro\<close> does not exist and cannot be created. The LOCK creates
  the lock, fails to create the resource, unlocks the new lock and returns 500. On
  \<open>/new\<close>, which can be created, the lock stays.
\<close>

theorem handleLock_rollback_witness:
  "handleLock demoHandler demoDeps (demoRequest ''LOCK'' ''/dav/ro'' [] 0 ''owner'') [] []
     = ((StatusInternalServerError, Some (OtherError ''io'')), [],
        [''Create /ro'', ''Stat /ro'', ''OpenFile /ro'', ''Unlock t/ro''])
   \<and> snd (snd (handleLock demoHandler demoDeps (demoRequest ''LOCK'' ''/dav/new'' [] 0 ''owner'') [] []))
     = [''Create /new'', ''Stat /new'', ''OpenFile /new'', ''File.Close'']"
proof -
  let ?r = "demoRequest ''LOCK'' ''/dav/ro'' [] 0 ''owner''"
  let ?li = "\<lparr>XMLName = ''lockinfo'', Exclusive = True, Shared = False, Write = True,
              Owner_InnerXML = ''owner''\<rparr>"
  have 1: "parseTimeout demoDeps (Header ?r ''Timeout'') = Inr infiniteTimeout"
    by (simp add: demoDeps_def)
  have 2: "ReadLockInfo demoDeps (Body ?r) = (?li, 0, None)"
    by (simp add: demoDeps_def demoRequest_def)
  have 3: "?li \<noteq> zeroLockInfo"
    by (simp add: zeroLockInfo_def)
  have 4: "time_Now demoDeps [] = (0, [])"
    by (simp add: demoDeps_def)
  have 5: "Header ?r ''Depth'' = [] \<or> parseDepth (Header ?r ''Depth'') = 0
           \<or> parseDepth (Header ?r ''Depth'') = infiniteDepth"
    by (simp add: demoRequest_def)
  have 6: "stripPrefix demoHandler (Path ?r) = (''/ro'', 200, None)"
    by (simp add: demoHandler_def demoRequest_def stripPrefix_def TrimPrefix_def HasPrefix_def)
  have 7: "Create (LockSystem demoHandler) 0
           \<lparr>Root = ''/ro'', Duration = infiniteTimeout, OwnerXML = Owner_InnerXML ?li,
             ZeroDepth = ((if Header ?r ''Depth'' \<noteq> [] then parseDepth (Header ?r ''Depth'')
                           else infiniteDepth) = 0)\<rparr> [] = (Inr ''t/ro'', [''Create /ro''])"
    by (simp add: demoHandler_def demoLS_def)
  have 8: "Stat (FileSystem demoHandler) ''/ro'' [''Create /ro'']
      = (Inl (NotExistError ''/ro''), [''Create /ro'', ''Stat /ro''])"
    by (simp add: demoHandler_def demoFS_def)
  have 9: "OpenFile (FileSystem demoHandler) ''/ro'' O_RDWR_CREATE_TRUNC 438 [''Create /ro'', ''Stat /ro'']
      = (Inl (OtherError ''io''), [''Create /ro'', ''Stat /ro'', ''OpenFile /ro''])"
    by (simp add: demoHandler_def demoFS_def)
  have "handleLock demoHandler demoDeps ?r [] []
      = ((StatusInternalServerError, Some (OtherError ''io'')), [],
         snd (Unlock (LockSystem demoHandler) 0 ''t/ro'' [''Create /ro'', ''Stat /ro'', ''OpenFile /ro'']))"
    using handleLock_rollback [OF 1 2 3 4 5 6 7, of "[]"] 8 9 by blast
  then have "handleLock demoHandler demoDeps ?r [] []
     = ((StatusInternalServerError, Some (OtherError ''io'')), [],
        [''Create /ro'', ''Stat /ro'', ''OpenFile /ro'', ''Unlock t/ro''])"
    by (simp add: demoHandler_def demoLS_def)
  moreover have "snd (snd (handleLock demoHandler demoDeps (demoRequest ''LOCK'' ''/dav/new'' [] 0 ''owner'') [] []))
     = [''Create /new'', ''Stat /new'', ''OpenFile /new'', ''File.Close'']"
    by (simp add: handleLock_def demo_defs coordinator_defs zeroLockInfo_def)
  ultimately show ?thesis by simp
qed

lemma refreshToken_iff:
  "refreshToken ih \<noteq> [] \<longleftrightarrow>
     (\<exists>l c. ih_lists ih = [l] \<and> conditions l = [c] \<and> Token c \<noteq> [])"
proof
  assume a: "refreshToken ih \<noteq> []"
  then have 1: "length (ih_lists ih) = 1" and 2: "length (conditions (ih_lists ih ! 0)) = 1"
    and 3: "Token (conditions (ih_lists ih ! 0) ! 0) \<noteq> []"
    by (auto simp: refreshToken_def split: if_splits)
  from 1 obtain l where l: "ih_lists ih = [l]"
    by (cases "ih_lists ih") auto
  with 2 obtain c where c: "conditions l = [c]"
    by (cases "conditions l") auto
  from 3 l c have "Token c \<noteq> []" by simp
  with l c show "\<exists>l c. ih_lists ih = [l] \<and> conditions l = [c] \<and> Token c \<noteq> []" by blast
next
  assume "\<exists>l c. ih_lists ih = [l] \<and> conditions l = [c] \<and> Token c \<noteq> []"
  then show "refreshToken ih \<noteq> []" by (auto simp: refreshToken_def)
qed

lemma refreshToken_single:
  "ih_lists ih = [l] \<Longrightarrow> conditions l = [c] \<Longrightarrow> refreshToken ih = Token c"
  by (simp add: refreshToken_def)

text \<open>
  C5. Take a LOCK request whose Timeout header is accepted and whose body is empty:
  \<open>ReadLockInfo\<close> returns the zero lock info and a nil error. Let \<open>now\<close> be the clock
  reading of the handler.

  \<^item> Unless the If header parses to exactly one list with exactly one condition whose
    token is not empty, the handler returns 400 (\<open>errInvalidIfHeader\<close> when the header
    does not parse, \<open>errInvalidLockToken\<close> otherwise) and calls nothing on the store.
  \<^item> With such a token the handler calls \<open>Refresh\<close> with \<open>now\<close>, the token and the
    parsed timeout. When \<open>Refresh\<close> fails with \<open>ErrNoSuchLock\<close> the handler returns
    412, on any other error 500, both with the error of \<open>Refresh\<close> and nothing written.
    When \<open>Refresh\<close> succeeds the handler returns status 0 and a nil error, sets the XML
    content type and writes the lock document of the token and of the lock details
    that \<open>Refresh\<close> returned, sending no 201 status line.
\<close>

theorem handleLock_refresh:
  assumes "parseTimeout d (Header r ''Timeout'') = Inr duration"
    and "ReadLockInfo d (Body r) = (zeroLockInfo, st0, None)"
    and "time_Now d w = (now, w0)"
  shows
   "(\<not> (\<exists>ih l c. parseIfHeader d (Header r ''If'') = Some ih \<and> ih_lists ih = [l]
            \<and> conditions l = [c] \<and> Token c \<noteq> []) \<longrightarrow>
       handleLock h d r resp w =
         ((StatusBadRequest,
           Some (if parseIfHeader d (Header r ''If'') = None then errInvalidIfHeader
                 else errInvalidLockToken)), resp, w0))
    \<and> (\<forall>ih l c. parseIfHeader d (Header r ''If'') = Some ih \<and> ih_lists ih = [l]
            \<and> conditions l = [c] \<and> Token c \<noteq> [] \<longrightarrow>
          (\<forall>e w1. Refresh (LockSystem h) now (Token c) duration w0 = (Inl e, w1) \<longrightarrow>
             handleLock h d r resp w =
               (((if e = ErrNoSuchLock then StatusPreconditionFailed else StatusInternalServerError),
                 Some e), resp, w1))
          \<and> (\<forall>ld w1. Refresh (LockSystem h) now (Token c) duration w0 = (Inr ld, w1) \<longrightarrow>
               handleLock h d r resp w =
                 ((0, None),
                  resp @ [Header_Set ''Content-Type'' ''application/xml; charset=utf-8'',
                          WriteLockInfo (Token c) ld],
                  w1)))"
proof (intro conjI impI allI)
  assume n: "\<not> (\<exists>ih l c. parseIfHeader d (Header r ''If'') = Some ih \<and> ih_lists ih = [l]
            \<and> conditions l = [c] \<and> Token c \<noteq> [])"
  show "handleLock h d r resp w =
         ((StatusBadRequest,
           Some (if parseIfHeader d (Header r ''If'') = None then errInvalidIfHeader
                 else errInvalidLockToken)), resp, w0)"
  proof (cases "parseIfHeader d (Header r ''If'')")
    case None
    with assms show ?thesis by (simp add: handleLock_def)
  next
    case (Some ih)
    with n have "refreshToken ih = []"
      using refreshToken_iff [of ih] by blast
    with Some assms show ?thesis by (simp add: handleLock_def Let_def)
  qed
next
  fix ih l c e w1
  assume a: "parseIfHeader d (Header r ''If'') = Some ih \<and> ih_lists ih = [l]
            \<and> conditions l = [c] \<and> Token c \<noteq> []"
    and b: "Refresh (LockSystem h) now (Token c) duration w0 = (Inl e, w1)"
  from a have "refreshToken ih = Token c" by (simp add: refreshToken_single)
  with a b assms show "handleLock h d r resp w =
               (((if e = ErrNoSuchLock then StatusPreconditionFailed else StatusInternalServerError),
                 Some e), resp, w1)"
    by (simp add: handleLock_def Let_def)
next
  fix ih l c ld w1
  assume a: "parseIfHeader d (Header r ''If'') = Some ih \<and> ih_lists ih = [l]
            \<and> conditions l = [c] \<and> Token c \<noteq> []"
    and b: "Refresh (LockSystem h) now (Token c) duration w0 = (Inr ld, w1)"
  from a have "refreshToken ih = Token c" by (simp add: refreshToken_single)
  with a b assms show "handleLock h d r resp w =
                 ((0, None),
                  resp @ [Header_Set ''Content-Type'' ''application/xml; charset=utf-8'',
                          WriteLockInfo (Token c) ld],
                  w1)"
    by (simp add: handleLock_def Let_def writeLockResponse_def)
qed

text \<open>
  On the example server: refreshing with the token of the lock on \<open>/a\<close> echoes the
  refreshed lock; a token the store does not know gives 412; an If header with two lists
  gives 400 without a call of \<open>Refresh\<close>.
\<close>

theorem handleLock_refresh_witness:
  "handleLock demoHandler demoDeps (demoRequest ''LOCK'' ''/dav/a'' [(''If'', ''(<t/a>)'')] 0 []) [] []
     = ((0, None),
        [Header_Set ''Content-Type'' ''application/xml; charset=utf-8'',
         WriteLockInfo ''t/a'' \<lparr>Root = ''/a'', Duration = infiniteTimeout, OwnerXML = ''me'', ZeroDepth = False\<rparr>],
        [''Refresh t/a''])
   \<and> handleLock demoHandler demoDeps (demoRequest ''LOCK'' ''/dav/a'' [(''If'', ''(<good>)'')] 0 []) [] []
     = ((StatusPreconditionFailed, Some ErrNoSuchLock), [], [''Refresh good''])
   \<and> handleLock demoHandler demoDeps (demoRequest ''LOCK'' ''/dav/a'' [(''If'', ''(<stale>) (<good>)'')] 0 []) [] []
     = ((StatusBadRequest, Some errInvalidLockToken), [], [])"
proof -
  let ?r = "demoRequest ''LOCK'' ''/dav/a'' [(''If'', ''(<t/a>)'')] 0 []"
  let ?c = "\<lparr>Not_flag = False, Token = ''t/a'', ETag = []\<rparr>"
  let ?l = "\<lparr>resourceTag = [], conditions = [?c]\<rparr>"
  have 1: "parseTimeout demoDeps (Header ?r ''Timeout'') = Inr infiniteTimeout"
    by (simp add: demoDeps_def)
  have 2: "ReadLockInfo demoDeps (Body ?r) = (zeroLockInfo, 0, None)"
    by (simp add: demoDeps_def demoRequest_def)
  have 3: "time_Now demoDeps [] = (0, [])"
    by (simp add: demoDeps_def)
  have 4: "parseIfHeader demoDeps (Header ?r ''If'') = Some \<lparr>ih_lists = [?l]\<rparr>
      \<and> ih_lists \<lparr>ih_lists = [?l]\<rparr> = [?l] \<and> conditions ?l = [?c] \<and> Token ?c \<noteq> []"
    by (simp add: demoDeps_def demoRequest_def demoIf_def)
  have 5: "Refresh (LockSystem demoHandler) 0 (Token ?c) infiniteTimeout []
      = (Inr \<lparr>Root = ''/a'', Duration = infiniteTimeout, OwnerXML = ''me'', ZeroDepth = False\<rparr>,
         [''Refresh t/a''])"
    by (simp add: demoHandler_def demoLS_def)
  have "handleLock demoHandler demoDeps ?r [] []
     = ((0, None),
        [] @ [Header_Set ''Content-Type'' ''application/xml; charset=utf-8'',
         WriteLockInfo (Token ?c) \<lparr>Root = ''/a'', Duration = infiniteTimeout, OwnerXML = ''me'', ZeroDepth = False\<rparr>],
        [''Refresh t/a''])"
    using handleLock_refresh [OF 1 2 3, of demoHandler "[]"] 4 5 by blast
  moreover have "handleLock demoHandler demoDeps (demoRequest ''LOCK'' ''/dav/a'' [(''If'', ''(<good>)'')] 0 []) [] []
     = ((StatusPreconditionFailed, Some ErrNoSuchLock), [], [''Refresh good''])"
    by (simp add: handleLock_def demo_defs refreshToken_def)
  moreover have "handleLock demoHandler demoDeps (demoRequest ''LOCK'' ''/dav/a'' [(''If'', ''(<stale>) (<good>)'')] 0 []) [] []
     = ((StatusBadRequest, Some errInvalidLockToken), [], [])"
    by (simp add: handleLock_def demo_defs refreshToken_def)
  ultimately show ?thesis by simp
qed

section \<open>The If header\<close>

lemma confirmLists_skip_failed:
  "listsFail h d r src dst pre w = Some w' \<Longrightarrow>
     confirmLists h d r src dst (pre @ post) w = confirmLists h d r src dst post w'"
proof (induction pre arbitrary: w)
  case Nil
  then show ?case by simp
next
  case (Cons l pre)
  then show ?case
    by (auto split: lsrc_outcome.splits prod.splits sum.splits if_splits)
qed

lemma confirmLists_all_failed:
  "listsFail h d r src dst ls w = Some w' \<Longrightarrow>
     confirmLists h d r src dst ls w = ((None, StatusPreconditionFailed, Some ErrLocked), w')"
  using confirmLists_skip_failed [of h d r src dst ls w w' "[]"] by simp

lemma confirmLists_412:
  "confirmLists h d r src dst ls w = ((rel, StatusPreconditionFailed, e), w') \<Longrightarrow>
     listsFail h d r src dst ls w = Some w'"
proof (induction ls arbitrary: w)
  case Nil
  then show ?case by simp
next
  case (Cons l ls)
  then show ?case
    by (auto split: lsrc_outcome.splits prod.splits sum.splits if_splits
        dest: effectivePath_Return)
qed

lemma confirmLocks_If:
  "Header r ''If'' \<noteq> [] \<Longrightarrow> parseIfHeader d (Header r ''If'') = Some ih \<Longrightarrow>
     confirmLocks h d r src dst w = confirmLists h d r src dst (ih_lists ih) w"
  by (simp add: confirmLocks_def)

text \<open>
  C2. Take a request whose If header is present and parses to \<open>ih\<close>. Split the lists
  of \<open>ih\<close> at any list \<open>l\<close> such that no list before \<open>l\<close> gave a result (\<open>listsFail\<close>:
  each was passed over or its \<open>Confirm\<close> returned \<open>ErrConfirmationFailed\<close>), and let
  \<open>l\<close> reach \<open>Confirm\<close> with the path \<open>lsrc\<close> (\<open>src\<close> itself when \<open>l\<close> has no resource
  tag). Then \<open>Confirm\<close> is called with \<open>lsrc\<close>, \<open>dst\<close> and the conditions of \<open>l\<close>, in
  the world the earlier lists left, and:
  \<^item> when it succeeds, \<open>confirmLocks\<close> returns its release function with status 0 and
    a nil error, and no later list is tried;
  \<^item> when it returns an error other than \<open>ErrConfirmationFailed\<close>, \<open>confirmLocks\<close>
    returns 500 with that error, and no later list is tried;
  \<^item> when it returns \<open>ErrConfirmationFailed\<close>, \<open>confirmLocks\<close> goes on with the lists
    after \<open>l\<close>.
  When no list at all gives a result, \<open>confirmLocks\<close> returns 412 with \<open>ErrLocked\<close>,
  and 412 is returned in that case only.
\<close>

theorem confirmLocks_lists:
  assumes "Header r ''If'' \<noteq> []" and "parseIfHeader d (Header r ''If'') = Some ih"
  shows
   "(\<forall>pre l post w' lsrc now w1.
        ih_lists ih = pre @ l # post \<and> listsFail h d r src dst pre w = Some w'
          \<and> effectivePath h d r src l = Lsrc lsrc \<and> time_Now d w' = (now, w1) \<longrightarrow>
        (\<forall>release w2. Confirm (LockSystem h) now lsrc dst (conditions l) w1 = (Inr release, w2) \<longrightarrow>
           confirmLocks h d r src dst w = ((Some release, 0, None), w2))
        \<and> (\<forall>e w2. Confirm (LockSystem h) now lsrc dst (conditions l) w1 = (Inl e, w2)
                \<and> e \<noteq> ErrConfirmationFailed \<longrightarrow>
             confirmLocks h d r src dst w = ((None, StatusInternalServerError, Some e), w2))
        \<and> (\<forall>w2. Confirm (LockSystem h) now lsrc dst (conditions l) w1 = (Inl ErrConfirmationFailed, w2) \<longrightarrow>
             confirmLocks h d r src dst w = confirmLists h d r src dst post w2))
    \<and> (\<forall>l. resourceTag l = [] \<longrightarrow> effectivePath h d r src l = Lsrc src)
    \<and> (\<forall>w'. listsFail h d r src dst (ih_lists ih) w = Some w' \<longrightarrow>
          confirmLocks h d r src dst w = ((None, StatusPreconditionFailed, Some ErrLocked), w'))
    \<and> (\<forall>release e w'. confirmLocks h d r src dst w = ((release, StatusPreconditionFailed, e), w') \<longrightarrow>
          listsFail h d r src dst (ih_lists ih) w = Some w')"
proof (intro conjI allI impI)
  fix pre l post w' lsrc now w1 release w2
  assume a: "ih_lists ih = pre @ l # post \<and> listsFail h d r src dst pre w = Some w'
          \<and> effectivePath h d r src l = Lsrc lsrc \<and> time_Now d w' = (now, w1)"
    and b: "Confirm (LockSystem h) now lsrc dst (conditions l) w1 = (Inr release, w2)"
  from a have "confirmLocks h d r src dst w = confirmLists h d r src dst (l # post) w'"
    by (simp add: confirmLocks_If [OF assms] confirmLists_skip_failed)
  with a b show "confirmLocks h d r src dst w = ((Some release, 0, None), w2)"
    by simp
next
  fix pre l post w' lsrc now w1 e w2
  assume a: "ih_lists ih = pre @ l # post \<and> listsFail h d r src dst pre w = Some w'
          \<and> effectivePath h d r src l = Lsrc lsrc \<and> time_Now d w' = (now, w1)"
    and b: "Confirm (LockSystem h) now lsrc dst (conditions l) w1 = (Inl e, w2)
                \<and> e \<noteq> ErrConfirmationFailed"
  from a have "confirmLocks h d r src dst w = confirmLists h d r src dst (l # post) w'"
    by (simp add: confirmLocks_If [OF assms] confirmLists_skip_failed)
  with a b show "confirmLocks h d r src dst w = ((None, StatusInternalServerError, Some e), w2)"
    by simp
next
  fix pre l post w' lsrc now w1 w2
  assume a: "ih_lists ih = pre @ l # post \<and> listsFail h d r src dst pre w = Some w'
          \<and> effectivePath h d r src l = Lsrc lsrc \<and> time_Now d w' = (now, w1)"
    and b: "Confirm (LockSystem h) now lsrc dst (conditions l) w1 = (Inl ErrConfirmationFailed, w2)"
  from a have "confirmLocks h d r src dst w = confirmLists h d r src dst (l # post) w'"
    by (simp add: confirmLocks_If [OF assms] confirmLists_skip_failed)
  with a b show "confirmLocks h d r src dst w = confirmLists h d r src dst post w2"
    by simp
next
  fix l :: ifList
  assume "resourceTag l = []"
  then show "effectivePath h d r src l = Lsrc src"
    by (simp add: effectivePath_def)
next
  fix w'
  assume "listsFail h d r src dst (ih_lists ih) w = Some w'"
  then show "confirmLocks h d r src dst w = ((None, StatusPreconditionFailed, Some ErrLocked), w')"
    by (simp add: confirmLocks_If [OF assms] confirmLists_all_failed)
next
  fix release e w'
  assume "confirmLocks h d r src dst w = ((release, StatusPreconditionFailed, e), w')"
  then show "listsFail h d r src dst (ih_lists ih) w = Some w'"
    by (simp add: confirmLocks_If [OF assms] confirmLists_412)
qed

text \<open>
  On the example server, whose store confirms the token \<open>good\<close>, fails on \<open>broken\<close>
  with an error of its own and answers \<open>ErrConfirmationFailed\<close> to every other token:
  with the lists \<open>(<stale>) (<good>)\<close> the second list succeeds after the first
  failed; with \<open>(<stale>) (<broken>) (<good>)\<close> the second list ends the request with
  500 and the third is never tried; with \<open>(<stale>) (<old>)\<close> every list fails and
  the status is 412.
\<close>

theorem confirmLocks_lists_witness:
  "(case confirmLocks demoHandler demoDeps
           (demoRequest ''PUT'' ''/dav/a'' [(''If'', ''(<stale>) (<good>)'')] 0 []) ''/a'' [] [] of
      ((release, status, err), w') \<Rightarrow>
        status = 0 \<and> err = None \<and> w' = [''Confirm /a'', ''Confirm /a'']
        \<and> deferred release w' = [''Confirm /a'', ''Confirm /a'', ''release /a''])
   \<and> confirmLocks demoHandler demoDeps
        (demoRequest ''PUT'' ''/dav/a'' [(''If'', ''(<stale>) (<broken>) (<good>)'')] 0 []) ''/a'' [] []
      = ((None, StatusInternalServerError, Some (OtherError ''store'')), [''Confirm /a'', ''Confirm /a''])
   \<and> confirmLocks demoHandler demoDeps
        (demoRequest ''PUT'' ''/dav/a'' [(''If'', ''(<stale>) (<old>)'')] 0 []) ''/a'' [] []
      = ((None, StatusPreconditionFailed, Some ErrLocked), [''Confirm /a'', ''Confirm /a''])"
proof -
  let ?r = "demoRequest ''PUT'' ''/dav/a'' [(''If'', ''(<stale>) (<old>)'')] 0 []"
  let ?stale = "\<lparr>resourceTag = [], conditions = [\<lparr>Not_flag = False, Token = ''stale'', ETag = []\<rparr>]\<rparr>"
  let ?old = "\<lparr>resourceTag = [], conditions = [\<lparr>Not_flag = False, Token = ''old'', ETag = []\<rparr>]\<rparr>"
  have 1: "Header ?r ''If'' \<noteq> []"
    by (simp add: demoRequest_def)
  have 2: "parseIfHeader demoDeps (Header ?r ''If'') = Some \<lparr>ih_lists = [?stale, ?old]\<rparr>"
    by (simp add: demoDeps_def demoRequest_def demoIf_def)
  have 3: "listsFail demoHandler demoDeps ?r ''/a'' [] (ih_lists \<lparr>ih_lists = [?stale, ?old]\<rparr>) []
      = Some [''Confirm /a'', ''Confirm /a'']"
    by (simp add: effectivePath_def demoHandler_def demoDeps_def demoLS_def)
  have "confirmLocks demoHandler demoDeps ?r ''/a'' [] []
      = ((None, StatusPreconditionFailed, Some ErrLocked), [''Confirm /a'', ''Confirm /a''])"
    using confirmLocks_lists [OF 1 2, of demoHandler "''/a''" "[]" "[]"] 3 by blast
  moreover have "case confirmLocks demoHandler demoDeps
           (demoRequest ''PUT'' ''/dav/a'' [(''If'', ''(<stale>) (<good>)'')] 0 []) ''/a'' [] [] of
      ((release, status, err), w') \<Rightarrow>
        status = 0 \<and> err = None \<and> w' = [''Confirm /a'', ''Confirm /a'']
        \<and> deferred release w' = [''Confirm /a'', ''Confirm /a'', ''release /a'']"
    by (simp add: demo_defs coordinator_defs)
  moreover have "confirmLocks demoHandler demoDeps
        (demoRequest ''PUT'' ''/dav/a'' [(''If'', ''(<stale>) (<broken>) (<good>)'')] 0 []) ''/a'' [] []
      = ((None, StatusInternalServerError, Some (OtherError ''store'')), [''Confirm /a'', ''Confirm /a''])"
    by (simp add: demo_defs coordinator_defs)
  ultimately show ?thesis by simp
qed

text \<open>
  C8. Take a request whose If header is present and parses to \<open>ih\<close>, and a list \<open>l\<close>
  with a resource tag such that no list before \<open>l\<close> gave a result.
  \<^item> When the resource tag does not parse as a URL, or parses to a host other than the
    request's, \<open>l\<close> is passed over: \<open>confirmLocks\<close> goes on with the lists after \<open>l\<close>,
    in the same world, without a call of \<open>Confirm\<close> for \<open>l\<close>.
  \<^item> When the tag parses, the host is the request's, and stripping the prefix from
    its path fails, \<open>confirmLocks\<close> returns 404 with \<open>errPrefixMismatch\<close> at once: the
    result does not depend on the lists after \<open>l\<close> and the world is the one the
    earlier lists left.
\<close>

theorem confirmLocks_resource_tag:
  assumes "Header r ''If'' \<noteq> []" and "parseIfHeader d (Header r ''If'') = Some ih"
  shows
   "\<forall>pre l post w'.
        ih_lists ih = pre @ l # post \<and> listsFail h d r src dst pre w = Some w'
          \<and> resourceTag l \<noteq> [] \<longrightarrow>
        (\<forall>e. url_Parse d (resourceTag l) = Inl e \<longrightarrow>
           confirmLocks h d r src dst w = confirmLists h d r src dst post w')
        \<and> (\<forall>u. url_Parse d (resourceTag l) = Inr u \<and> URL_Host u \<noteq> Host r \<longrightarrow>
             confirmLocks h d r src dst w = confirmLists h d r src dst post w')
        \<and> (\<forall>u p st e. url_Parse d (resourceTag l) = Inr u \<and> URL_Host u = Host r
                \<and> stripPrefix h (URL_Path u) = (p, st, Some e) \<longrightarrow>
             confirmLocks h d r src dst w = ((None, StatusNotFound, Some errPrefixMismatch), w'))"
proof (intro conjI allI impI)
  fix pre l post w' e
  assume a: "ih_lists ih = pre @ l # post \<and> listsFail h d r src dst pre w = Some w'
          \<and> resourceTag l \<noteq> []"
    and b: "url_Parse d (resourceTag l) = Inl e"
  from a b have "effectivePath h d r src l = Continue"
    by (simp add: effectivePath_def)
  moreover from a have "confirmLocks h d r src dst w = confirmLists h d r src dst (l # post) w'"
    by (simp add: confirmLocks_If [OF assms] confirmLists_skip_failed)
  ultimately show "confirmLocks h d r src dst w = confirmLists h d r src dst post w'"
    by simp
next
  fix pre l post w' u
  assume a: "ih_lists ih = pre @ l # post \<and> listsFail h d r src dst pre w = Some w'
          \<and> resourceTag l \<noteq> []"
    and b: "url_Parse d (resourceTag l) = Inr u \<and> URL_Host u \<noteq> Host r"
  from a b have "effectivePath h d r src l = Continue"
    by (simp add: effectivePath_def)
  moreover from a have "confirmLocks h d r src dst w = confirmLists h d r src dst (l # post) w'"
    by (simp add: confirmLocks_If [OF assms] confirmLists_skip_failed)
  ultimately show "confirmLocks h d r src dst w = confirmLists h d r src dst post w'"
    by simp
next
  fix pre l post w' u p st e
  assume a: "ih_lists ih = pre @ l # post \<and> listsFail h d r src dst pre w = Some w'
          \<and> resourceTag l \<noteq> []"
    and b: "url_Parse d (resourceTag l) = Inr u \<and> URL_Host u = Host r
                \<and> stripPrefix h (URL_Path u) = (p, st, Some e)"
  from b have "st = StatusNotFound \<and> e = errPrefixMismatch"
    using stripPrefix_err by blast
  with a b have "effectivePath h d r src l = Return StatusNotFound errPrefixMismatch"
    by (simp add: effectivePath_def)
  moreover from a have "confirmLocks h d r src dst w = confirmLists h d r src dst (l # post) w'"
    by (simp add: confirmLocks_If [OF assms] confirmLists_skip_failed)
  ultimately show "confirmLocks h d r src dst w = ((None, StatusNotFound, Some errPrefixMismatch), w')"
    by simp
qed

text \<open>
  On the example server, with prefix \<open>/dav\<close> and host \<open>host\<close>: the first list is
  tagged with another host and is passed over; the second is tagged
  \<open>http://host/x\<close>, whose path is not under the prefix, and the request fails with 404
  although the third list would have been confirmed. No \<open>Confirm\<close> call is made.
\<close>

theorem confirmLocks_resource_tag_witness:
  "confirmLocks demoHandler demoDeps
     (demoRequest ''PUT'' ''/dav/a''
        [(''If'', ''<http://other/dav/a> (<good>) <http://host/x> (<good>) (<good>)'')] 0 [])
     ''/a'' [] []
   = ((None, StatusNotFound, Some errPrefixMismatch), [])"
proof -
  let ?r = "demoRequest ''PUT'' ''/dav/a''
        [(''If'', ''<http://other/dav/a> (<good>) <http://host/x> (<good>) (<good>)'')] 0 []"
  let ?good = "[\<lparr>Not_flag = False, Token = ''good'', ETag = []\<rparr>]"
  let ?l1 = "\<lparr>resourceTag = ''http://other/dav/a'', conditions = ?good\<rparr>"
  let ?l2 = "\<lparr>resourceTag = ''http://host/x'', conditions = ?good\<rparr>"
  let ?l3 = "\<lparr>resourceTag = [], conditions = ?good\<rparr>"
  have 1: "Header ?r ''If'' \<noteq> []"
    by (simp add: demoRequest_def)
  have 2: "parseIfHeader demoDeps (Header ?r ''If'') = Some \<lparr>ih_lists = [?l1, ?l2, ?l3]\<rparr>"
    by (simp add: demoDeps_def demoRequest_def demoIf_def)
  have 3: "ih_lists \<lparr>ih_lists = [?l1, ?l2, ?l3]\<rparr> = [?l1] @ ?l2 # [?l3]"
    by simp
  have 4: "listsFail demoHandler demoDeps ?r ''/a'' [] [?l1] [] = Some []"
    by (simp add: effectivePath_def demoDeps_def demoRequest_def)
  have 5: "resourceTag ?l2 \<noteq> []"
    by simp
  have 6: "url_Parse demoDeps (resourceTag ?l2) = Inr \<lparr>URL_Host = ''host'', URL_Path = ''/x''\<rparr>
      \<and> URL_Host \<lparr>URL_Host = ''host'', URL_Path = ''/x''\<rparr> = Host ?r
      \<and> stripPrefix demoHandler (URL_Path \<lparr>URL_Host = ''host'', URL_Path = ''/x''\<rparr>)
          = (''/x'', StatusNotFound, Some errPrefixMismatch)"
    by (simp add: demoDeps_def demoRequest_def demoHandler_def stripPrefix_def TrimPrefix_def
        HasPrefix_def)
  show ?thesis
    using confirmLocks_resource_tag [OF 1 2, of demoHandler "''/a''" "[]" "[]"] 3 4 5 6 by blast
qed

end
